theory Spec2Isabelle
  imports Main
begin

section \<open>The multi-client primary lease of IndexedDbPersistence\<close>

text \<open>
  A shallow embedding of \<^verbatim>\<open>packages/firestore/src/local/indexeddb_persistence.ts\<close>.
  Every client (browser tab) runs one \<^verbatim>\<open>IndexedDbPersistence\<close> instance; the instances
  share an IndexedDB database and the LocalStorage of the origin. The instance's fields are
  a record that every operation takes and returns, the shared stores and the clock are a
  second record, and a thrown exception or rejected promise is the \<open>Inl\<close> of a sum.
  Timestamps are the integer milliseconds of \<^verbatim>\<open>Date.now()\<close>.
  Each operation of the instance is run to its end on the state it is given: what other
  clients did before is part of that state, and the clock moves only where a caller's
  transaction body moves it.
\<close>

subsection \<open>Errors\<close>

datatype Code = FAILED_PRECONDITION | UNIMPLEMENTED

text \<open>
  \<open>FirestoreError\<close> is the class of that name, \<open>AssertionFailed\<close> the exception of a failed
  \<^verbatim>\<open>assert\<close>, \<open>TypeError\<close> the exception of a property access on \<^verbatim>\<open>undefined\<close>,
  \<open>StorageError\<close> an exception thrown by LocalStorage, \<open>InvalidStateError\<close> the one a closed
  database connection may answer with, and \<open>OtherError\<close> whatever a caller's transaction
  body or a collaborator throws.
\<close>

datatype error =
    FirestoreError Code string
  | AssertionFailed string
  | TypeError
  | StorageError
  | InvalidStateError
  | OtherError string

definition CLIENT_METADATA_MAX_AGE_MS :: int where
  "CLIENT_METADATA_MAX_AGE_MS = 5000"

definition CLIENT_STATE_GARBAGE_COLLECTION_THRESHOLD_MS :: int where
  "CLIENT_STATE_GARBAGE_COLLECTION_THRESHOLD_MS = 30 * 60 * 1000"

definition CLIENT_METADATA_REFRESH_INTERVAL_MS :: int where
  "CLIENT_METADATA_REFRESH_INTERVAL_MS = 4000"

definition PRIMARY_LEASE_LOST_ERROR_MSG :: string where
  "PRIMARY_LEASE_LOST_ERROR_MSG =
     ''The current tab is not in the required state to perform this operation. '' @
     ''It might be necessary to refresh the browser tab.''"

definition PRIMARY_LEASE_EXCLUSIVE_ERROR_MSG :: string where
  "PRIMARY_LEASE_EXCLUSIVE_ERROR_MSG =
     ''There is another tab open with offline'' @
     '' persistence enabled. Only one such tab is allowed at a time. The'' @
     '' other tab must be closed or persistence must be disabled.''"

definition UNSUPPORTED_PLATFORM_ERROR_MSG :: string where
  "UNSUPPORTED_PLATFORM_ERROR_MSG =
     ''This platform is either missing'' @
     '' IndexedDB or is known to have an incomplete implementation. Offline'' @
     '' persistence has been disabled.''"

definition ZOMBIED_CLIENTS_KEY_PREFIX :: string where
  "ZOMBIED_CLIENTS_KEY_PREFIX = ''firestore_zombie''"

definition PRIMARY_LEASE_LOST :: error where
  "PRIMARY_LEASE_LOST = FirestoreError FAILED_PRECONDITION PRIMARY_LEASE_LOST_ERROR_MSG"

definition PRIMARY_LEASE_EXCLUSIVE :: error where
  "PRIMARY_LEASE_EXCLUSIVE = FirestoreError FAILED_PRECONDITION PRIMARY_LEASE_EXCLUSIVE_ERROR_MSG"

subsection \<open>The stored records and the shared state\<close>

type_synonym ClientId = string

record DbPrimaryClient =
  ownerId :: ClientId
  allowTabSynchronization :: bool
  leaseTimestampMs :: int

text \<open>
  \<open>lastProcessedDocumentChangeId\<close> may be missing from a stored record: the garbage
  collector reads it as \<^verbatim>\<open>client.lastProcessedDocumentChangeId || 0\<close>.
\<close>

record DbClientMetadata =
  clientId :: ClientId
  updateTimeMs :: int
  networkEnabled :: bool
  inForeground :: bool
  lastProcessedDocumentChangeId :: "int option"

text \<open>
  The object stores the coordinator touches: the singleton \<^verbatim>\<open>primaryClient\<close>, the
  \<^verbatim>\<open>clientMetadata\<close> store keyed by \<open>clientId\<close> (the list \<^verbatim>\<open>loadAll()\<close> returns, one record
  per key), and the ids of the entries of the remote document change log.
\<close>

record Database =
  primaryClient :: "DbPrimaryClient option"
  clientMetadata :: "DbClientMetadata list"
  remoteDocumentChangeLog :: "int list"

text \<open>
  \<^verbatim>\<open>window.localStorage\<close>: undefined, present but throwing on every access, or a working
  string-keyed store.
\<close>

datatype LocalStorage =
    StorageUndefined
  | StorageThrows
  | Storage "string \<rightharpoonup> string"

text \<open>
  What all clients share and what the instance reads from its surroundings: the clock,
  the database, LocalStorage, whether \<^verbatim>\<open>document.visibilityState\<close> is \<^verbatim>\<open>'visible'\<close>,
  the error \<^verbatim>\<open>SimpleDb.openOrCreate\<close> rejects with, if it does, and what
  \<^verbatim>\<open>remoteDocumentCache.start(txn)\<close> answers: an error, or the cursor the document cache
  begins with.
\<close>

record World =
  now :: int
  db :: Database
  localStorage :: LocalStorage
  documentVisible :: bool
  openOrCreateError :: "error option"
  documentCacheStart :: "error + int option"

subsection \<open>The instance\<close>

text \<open>
  The platform the instance was constructed on: \<^verbatim>\<open>SimpleDb.isAvailable()\<close>, whether
  \<^verbatim>\<open>platform.window\<close> is not null, whether \<^verbatim>\<open>window.addEventListener\<close> and
  \<^verbatim>\<open>window.removeEventListener\<close> are functions, whether \<^verbatim>\<open>platform.document\<close> is not null
  with a function \<^verbatim>\<open>addEventListener\<close>, whether \<^verbatim>\<open>process.env.USE_MOCK_PERSISTENCE\<close> is
  \<^verbatim>\<open>'YES'\<close>, and what \<^verbatim>\<open>SimpleDb.runTransaction\<close> answers on a connection that was closed
  (\<open>None\<close>: the transaction runs all the same).
\<close>

record Platform =
  simpleDbIsAvailable :: bool
  windowDefined :: bool
  windowAddEventListener :: bool
  windowRemoveEventListener :: bool
  documentAddEventListener :: bool
  useMockPersistence :: bool
  closedDbError :: "error option"

datatype SimpleDb = Open | Closed

text \<open>
  The handle \<^verbatim>\<open>enqueueAfterDelay\<close> returns: pending with its delay, started (its timer
  fired and the operation was handed to the queue), or cancelled.
\<close>

datatype CancelablePromise = Pending int | Started | Cancelled

text \<open>
  The operations the instance hands to \<^verbatim>\<open>queue.enqueueAndForget\<close>:
  \<open>NotifyPrimaryStateIfStarted\<close> is
  \<^verbatim>\<open>if (this.started) return this.primaryStateListener(this.isPrimary)\<close> and
  \<open>NotifyPrimaryState b\<close> is \<^verbatim>\<open>this.primaryStateListener(b)\<close>.
\<close>

datatype QueuedOperation = NotifyPrimaryStateIfStarted | NotifyPrimaryState bool

text \<open>
  The fields of the instance. \<open>this_simpleDb\<close>, \<open>this_clientMetadataRefresher\<close> and the two
  handlers are undefined until \<^verbatim>\<open>start()\<close> assigns them; \<open>this_lastGarbageCollectionTime\<close>
  is \<open>None\<close> for \<^verbatim>\<open>Number.NEGATIVE_INFINITY\<close>; \<open>this_lastProcessedDocumentChangeId\<close> is the
  cursor of \<^verbatim>\<open>this.remoteDocumentCache\<close>; \<open>this_queue\<close> lists what was enqueued, oldest first.
\<close>

record IndexedDbPersistence =
  this_persistenceKey :: string
  this_clientId :: ClientId
  this_platform :: Platform
  this_allowTabSynchronization :: bool
  this_simpleDb :: "SimpleDb option"
  this_started :: bool
  this_isPrimary :: bool
  this_networkEnabled :: bool
  this_inForeground :: bool
  this_persistenceError :: "error option"
  this_windowUnloadHandler :: bool
  this_documentVisibilityHandler :: bool
  this_clientMetadataRefresher :: "CancelablePromise option"
  this_lastGarbageCollectionTime :: "int option"
  this_lastProcessedDocumentChangeId :: "int option"
  this_queue :: "QueuedOperation list"

subsection \<open>The stores\<close>

text \<open>
  Modelled from the spec: the typed store handles of the transactional store adapter
  (\<^verbatim>\<open>SimpleDbStore\<close>, whose source is not part of the repository's files). \<^verbatim>\<open>put\<close> on the
  \<^verbatim>\<open>clientMetadata\<close> store replaces the record of the same \<open>clientId\<close> or adds one, and
  \<^verbatim>\<open>delete\<close> removes the record of a key.
\<close>

definition clientMetadata_put :: "DbClientMetadata \<Rightarrow> DbClientMetadata list \<Rightarrow> DbClientMetadata list" where
  "clientMetadata_put m s =
     (if clientId m \<in> set (map clientId s)
      then map (\<lambda>c. if clientId c = clientId m then m else c) s
      else s @ [m])"

definition clientMetadata_delete :: "ClientId \<Rightarrow> DbClientMetadata list \<Rightarrow> DbClientMetadata list" where
  "clientMetadata_delete k s = filter (\<lambda>c. clientId c \<noteq> k) s"

text \<open>
  Modelled from the spec: \<^verbatim>\<open>remoteDocumentCache.removeDocumentChangesThroughChangeId\<close> of
  the document cache collaborator, which truncates the entries of the change log up to
  and including the given id.
\<close>

definition removeDocumentChangesThroughChangeId :: "int \<Rightarrow> World \<Rightarrow> World" where
  "removeDocumentChangesThroughChangeId changeId w =
     w\<lparr>db := (db w)\<lparr>remoteDocumentChangeLog :=
        filter (\<lambda>c. changeId < c) (remoteDocumentChangeLog (db w))\<rparr>\<rparr>"

text \<open>Modelled from the spec: \<^verbatim>\<open>SimpleDb.delete\<close>, which deletes the underlying database.\<close>

definition SimpleDb_delete :: "World \<Rightarrow> World" where
  "SimpleDb_delete w =
     w\<lparr>db := \<lparr>primaryClient = None, clientMetadata = [], remoteDocumentChangeLog = []\<rparr>\<rparr>"

text \<open>
  Modelled from the spec: \<^verbatim>\<open>CancelablePromise.cancel\<close> of the async queue, which prevents
  the operation from running if it has not started yet.
\<close>

definition cancel :: "CancelablePromise \<Rightarrow> CancelablePromise" where
  "cancel h = (case h of Pending d \<Rightarrow> Cancelled | Started \<Rightarrow> Started | Cancelled \<Rightarrow> Cancelled)"

subsection \<open>JavaScript values\<close>

text \<open>\<^verbatim>\<open>String(n)\<close> of an integer: its decimal digits, with a sign when negative.\<close>

fun String_nat :: "nat \<Rightarrow> string" where
  "String_nat n =
     (if n < 10 then [char_of (48 + n)]
      else String_nat (n div 10) @ [char_of (48 + n mod 10)])"

declare String_nat.simps [simp del]

definition String_int :: "int \<Rightarrow> string" where
  "String_int i = (if i < 0 then CHR ''-'' # String_nat (nat (- i)) else String_nat (nat i))"

text \<open>
  \<^verbatim>\<open>!v\<close> for the result of \<open>isClientZombied\<close>, which is \<^verbatim>\<open>true\<close>, \<^verbatim>\<open>false\<close> or
  \<^verbatim>\<open>null\<close> (\<open>None\<close>): only \<^verbatim>\<open>true\<close> is truthy.
\<close>

definition js_not :: "bool option \<Rightarrow> bool" where
  "js_not v = (v \<noteq> Some True)"

text \<open>\<^verbatim>\<open>v || 0\<close> for a number that may be undefined.\<close>

definition orZero :: "int option \<Rightarrow> int" where
  "orZero v = (case v of None \<Rightarrow> 0 | Some n \<Rightarrow> n)"

text \<open>\<^verbatim>\<open>Math.min(x, ...xs)\<close> of a non-empty argument list.\<close>

fun Math_min :: "int \<Rightarrow> int list \<Rightarrow> int" where
  "Math_min m [] = m"
| "Math_min m (x # xs) = Math_min (min m x) xs"

subsection \<open>Age, zombie markers and the local client\<close>

definition isWithinAge :: "World \<Rightarrow> int \<Rightarrow> int \<Rightarrow> bool" where
  "isWithinAge w updateTime maxAgeMs =
     (let minAcceptable = now w - maxAgeMs;
          maxAcceptable = now w
      in if updateTime < minAcceptable then False
         else if updateTime > maxAcceptable then False
         else True)"

definition isLocalClient :: "IndexedDbPersistence \<Rightarrow> DbPrimaryClient option \<Rightarrow> bool" where
  "isLocalClient l client =
     (case client of None \<Rightarrow> False | Some c \<Rightarrow> ownerId c = this_clientId l)"

definition zombiedClientLocalStorageKey :: "IndexedDbPersistence \<Rightarrow> ClientId \<Rightarrow> string" where
  "zombiedClientLocalStorageKey l cid =
     ZOMBIED_CLIENTS_KEY_PREFIX @ ''_'' @ this_persistenceKey l @ ''_'' @ cid"

text \<open>
  \<open>isClientZombied\<close> answers \<^verbatim>\<open>null\<close> (\<open>None\<close>) when LocalStorage is undefined under the
  IndexedDB shim or throws, and fails its assertion when LocalStorage is undefined
  otherwise.
\<close>

definition isClientZombied :: "IndexedDbPersistence \<Rightarrow> World \<Rightarrow> ClientId \<Rightarrow> error + bool option" where
  "isClientZombied l w cid =
     (if \<not> windowDefined (this_platform l) then Inl TypeError
      else case localStorage w of
        StorageUndefined \<Rightarrow>
          if useMockPersistence (this_platform l) then Inr None
          else Inl (AssertionFailed
                 ''Operating without LocalStorage is only supported with IndexedDbShim.'')
      | StorageThrows \<Rightarrow> Inr None
      | Storage m \<Rightarrow> Inr (Some (m (zombiedClientLocalStorageKey l cid) \<noteq> None)))"

definition markClientZombied :: "IndexedDbPersistence \<Rightarrow> World \<Rightarrow> World" where
  "markClientZombied l w =
     (if \<not> windowDefined (this_platform l) then w
      else case localStorage w of
        Storage m \<Rightarrow>
          w\<lparr>localStorage := Storage
             (m(zombiedClientLocalStorageKey l (this_clientId l) \<mapsto> String_int (now w)))\<rparr>
      | StorageUndefined \<Rightarrow> w
      | StorageThrows \<Rightarrow> w)"

definition removeClientZombiedEntry :: "IndexedDbPersistence \<Rightarrow> World \<Rightarrow> World" where
  "removeClientZombiedEntry l w =
     (if \<not> windowDefined (this_platform l) then w
      else case localStorage w of
        Storage m \<Rightarrow>
          w\<lparr>localStorage := Storage
             (m(zombiedClientLocalStorageKey l (this_clientId l) := None))\<rparr>
      | StorageUndefined \<Rightarrow> w
      | StorageThrows \<Rightarrow> w)"

text \<open>
  The \<^verbatim>\<open>filter\<close> of \<open>filterActiveClients\<close>: the zombie marker of a client is read only
  when its \<open>updateTimeMs\<close> is within the threshold, and an exception ends the filter.
\<close>

fun filterActiveClients ::
  "IndexedDbPersistence \<Rightarrow> World \<Rightarrow> DbClientMetadata list \<Rightarrow> int \<Rightarrow> error + DbClientMetadata list" where
  "filterActiveClients l w [] activityThresholdMs = Inr []"
| "filterActiveClients l w (client # clients) activityThresholdMs =
     (if isWithinAge w (updateTimeMs client) activityThresholdMs then
        (case isClientZombied l w (clientId client) of
           Inl e \<Rightarrow> Inl e
         | Inr z \<Rightarrow>
            (case filterActiveClients l w clients activityThresholdMs of
               Inl e \<Rightarrow> Inl e
             | Inr rest \<Rightarrow> Inr (if js_not z then client # rest else rest)))
      else filterActiveClients l w clients activityThresholdMs)"

subsection \<open>The lease\<close>

text \<open>
  The constant \<^verbatim>\<open>currentLeaseIsValid\<close> that \<open>canActAsPrimary\<close> and
  \<open>verifyAllowTabSynchronization\<close> both compute from the record they read: \<^verbatim>\<open>&&\<close>
  evaluates its right operand only when the left one holds.
\<close>

definition currentLeaseIsValid ::
  "IndexedDbPersistence \<Rightarrow> World \<Rightarrow> DbPrimaryClient option \<Rightarrow> error + bool" where
  "currentLeaseIsValid l w currentPrimary =
     (case currentPrimary of
        None \<Rightarrow> Inr False
      | Some p \<Rightarrow>
          if isWithinAge w (leaseTimestampMs p) CLIENT_METADATA_MAX_AGE_MS then
            (case isClientZombied l w (ownerId p) of
               Inl e \<Rightarrow> Inl e
             | Inr z \<Rightarrow> Inr (js_not z))
          else Inr False)"

text \<open>The test \<open>canActAsPrimary\<close> hands to \<^verbatim>\<open>find\<close>.\<close>

definition preferredCandidate :: "IndexedDbPersistence \<Rightarrow> DbClientMetadata \<Rightarrow> bool" where
  "preferredCandidate l otherClient =
     (if this_clientId l \<noteq> clientId otherClient then
        (let otherClientHasBetterNetworkState =
               (\<not> this_networkEnabled l \<and> networkEnabled otherClient);
             otherClientHasBetterVisibility =
               (\<not> this_inForeground l \<and> inForeground otherClient);
             otherClientHasSameNetworkState =
               (this_networkEnabled l = networkEnabled otherClient)
         in if otherClientHasBetterNetworkState \<or>
               (otherClientHasBetterVisibility \<and> otherClientHasSameNetworkState)
            then True else False)
      else False)"

definition canActAsPrimary :: "IndexedDbPersistence \<Rightarrow> World \<Rightarrow> error + bool" where
  "canActAsPrimary l w =
     (let currentPrimary = primaryClient (db w) in
      case currentLeaseIsValid l w currentPrimary of
        Inl e \<Rightarrow> Inl e
      | Inr valid \<Rightarrow>
          if valid \<and> isLocalClient l currentPrimary \<and> this_networkEnabled l then Inr True
          else if valid \<and> \<not> isLocalClient l currentPrimary then
            (case currentPrimary of
               None \<Rightarrow> Inl TypeError
             | Some p \<Rightarrow>
                 if \<not> allowTabSynchronization p then Inl PRIMARY_LEASE_EXCLUSIVE
                 else Inr False)
          else if this_networkEnabled l \<and> this_inForeground l then Inr True
          else
            (case filterActiveClients l w (clientMetadata (db w)) CLIENT_METADATA_MAX_AGE_MS of
               Inl e \<Rightarrow> Inl e
             | Inr active \<Rightarrow> Inr (find (preferredCandidate l) active = None)))"

definition verifyAllowTabSynchronization :: "IndexedDbPersistence \<Rightarrow> World \<Rightarrow> error + unit" where
  "verifyAllowTabSynchronization l w =
     (let currentPrimary = primaryClient (db w) in
      case currentLeaseIsValid l w currentPrimary of
        Inl e \<Rightarrow> Inl e
      | Inr valid \<Rightarrow>
          if valid \<and> \<not> isLocalClient l currentPrimary then
            (case currentPrimary of
               None \<Rightarrow> Inl TypeError
             | Some p \<Rightarrow>
                 if \<not> allowTabSynchronization p then Inl PRIMARY_LEASE_EXCLUSIVE
                 else Inr ())
          else Inr ())"

definition acquireOrExtendPrimaryLease :: "IndexedDbPersistence \<Rightarrow> World \<Rightarrow> World" where
  "acquireOrExtendPrimaryLease l w =
     (let newPrimary = \<lparr>ownerId = this_clientId l,
                        allowTabSynchronization = this_allowTabSynchronization l,
                        leaseTimestampMs = now w\<rparr>
      in w\<lparr>db := (db w)\<lparr>primaryClient := Some newPrimary\<rparr>\<rparr>)"

definition releasePrimaryLeaseIfHeld ::
  "IndexedDbPersistence \<Rightarrow> World \<Rightarrow> IndexedDbPersistence \<times> World" where
  "releasePrimaryLeaseIfHeld l w =
     (let l' = l\<lparr>this_isPrimary := False\<rparr>;
          primaryClient' = primaryClient (db w)
      in if isLocalClient l' primaryClient'
         then (l', w\<lparr>db := (db w)\<lparr>primaryClient := None\<rparr>\<rparr>)
         else (l', w))"

definition removeClientMetadata :: "IndexedDbPersistence \<Rightarrow> World \<Rightarrow> World" where
  "removeClientMetadata l w =
     w\<lparr>db := (db w)\<lparr>clientMetadata :=
        clientMetadata_delete (this_clientId l) (clientMetadata (db w))\<rparr>\<rparr>"

subsection \<open>Transactions\<close>

text \<open>
  Modelled from the spec: \<^verbatim>\<open>SimpleDb.runTransaction\<close> of the transactional store adapter.
  The body runs in one atomic transaction: when it fails, the transaction aborts, the
  stores are as they were before it, and the error propagates. What the body did to the
  instance and to the rest of the world stays. \<^verbatim>\<open>this.simpleDb.runTransaction\<close> is a
  \<open>TypeError\<close> while \<open>this_simpleDb\<close> is undefined. The spec does not say what a
  transaction on a closed connection does: that is \<open>closedDbError\<close> of the platform.
\<close>

definition simpleDb_runTransaction ::
  "IndexedDbPersistence \<Rightarrow> World \<Rightarrow>
   (IndexedDbPersistence \<Rightarrow> World \<Rightarrow> (error + 'a) \<times> IndexedDbPersistence \<times> World) \<Rightarrow>
   (error + 'a) \<times> IndexedDbPersistence \<times> World" where
  "simpleDb_runTransaction l w transactionFn =
     (let run = (case transactionFn l w of
                   (Inl e, l', w') \<Rightarrow> (Inl e, l', w'\<lparr>db := db w\<rparr>)
                 | (Inr r, l', w') \<Rightarrow> (Inr r, l', w'))
      in case this_simpleDb l of
           None \<Rightarrow> (Inl TypeError, l, w)
         | Some Open \<Rightarrow> run
         | Some Closed \<Rightarrow>
             (case closedDbError (this_platform l) of
                Some e \<Rightarrow> (Inl e, l, w)
              | None \<Rightarrow> run))"

text \<open>
  \<open>runTransaction\<close>: the caller's \<open>transactionOperation\<close> takes the world inside the
  transaction and returns its result or error with the world it leaves.
\<close>

definition runTransaction ::
  "IndexedDbPersistence \<Rightarrow> World \<Rightarrow> string \<Rightarrow> bool \<Rightarrow> (World \<Rightarrow> (error + 'a) \<times> World) \<Rightarrow>
   (error + 'a) \<times> IndexedDbPersistence \<times> World" where
  "runTransaction l w action requirePrimaryLease transactionOperation =
     (case this_persistenceError l of
        Some e \<Rightarrow> (Inl e, l, w)
      | None \<Rightarrow>
          simpleDb_runTransaction l w (\<lambda>l simpleDbTxn.
            if requirePrimaryLease then
              (case canActAsPrimary l simpleDbTxn of
                 Inl e \<Rightarrow> (Inl e, l, simpleDbTxn)
               | Inr canActAsPrimary' \<Rightarrow>
                   if \<not> canActAsPrimary' then
                     (Inl PRIMARY_LEASE_LOST,
                      l\<lparr>this_isPrimary := False,
                        this_queue := this_queue l @ [NotifyPrimaryState False]\<rparr>,
                      simpleDbTxn)
                   else
                     (case transactionOperation simpleDbTxn of
                        (Inl e, txn') \<Rightarrow> (Inl e, l, txn')
                      | (Inr result, txn') \<Rightarrow>
                          (Inr result, l, acquireOrExtendPrimaryLease l txn')))
            else
              (case verifyAllowTabSynchronization l simpleDbTxn of
                 Inl e \<Rightarrow> (Inl e, l, simpleDbTxn)
               | Inr u \<Rightarrow>
                   (case transactionOperation simpleDbTxn of
                      (r, txn') \<Rightarrow> (r, l, txn')))))"

definition updateClientMetadataAndTryBecomePrimary ::
  "IndexedDbPersistence \<Rightarrow> World \<Rightarrow> (error + unit) \<times> IndexedDbPersistence \<times> World" where
  "updateClientMetadataAndTryBecomePrimary l w =
     simpleDb_runTransaction l w (\<lambda>l txn.
       let metadata = \<lparr>clientId = this_clientId l,
                       updateTimeMs = now txn,
                       networkEnabled = this_networkEnabled l,
                       inForeground = this_inForeground l,
                       lastProcessedDocumentChangeId = this_lastProcessedDocumentChangeId l\<rparr>;
           txn1 = txn\<lparr>db := (db txn)\<lparr>clientMetadata :=
                    clientMetadata_put metadata (clientMetadata (db txn))\<rparr>\<rparr>
       in case canActAsPrimary l txn1 of
            Inl e \<Rightarrow> (Inl e, l, txn1)
          | Inr canActAsPrimary' \<Rightarrow>
              (let wasPrimary = this_isPrimary l;
                   l1 = l\<lparr>this_isPrimary := canActAsPrimary'\<rparr>;
                   l2 = (if wasPrimary \<noteq> this_isPrimary l1
                         then l1\<lparr>this_queue := this_queue l1 @ [NotifyPrimaryStateIfStarted]\<rparr>
                         else l1)
               in if wasPrimary \<and> \<not> this_isPrimary l2 then
                    (case releasePrimaryLeaseIfHeld l2 txn1 of
                       (l3, txn3) \<Rightarrow> (Inr (), l3, txn3))
                  else if this_isPrimary l2 then
                    (Inr (), l2, acquireOrExtendPrimaryLease l2 txn1)
                  else (Inr (), l2, txn1)))"

subsection \<open>Garbage collection and the refresher\<close>

text \<open>
  The transaction of \<open>maybeGarbageCollectMultiClientState\<close>. Its result is the list the
  source keeps in \<^verbatim>\<open>inactiveClients\<close> for the code after the transaction.
  \<^verbatim>\<open>activeClients.indexOf(client) === -1\<close> compares the records \<^verbatim>\<open>loadAll()\<close> returned, one per
  \<open>clientId\<close>.
\<close>

text \<open>
  The last step of that transaction up to the call of the collaborator: the local client
  is taken out of the active clients, and when some are left, the minimum of their
  \<^verbatim>\<open>lastProcessedDocumentChangeId || 0\<close> is the id handed to
  \<open>removeDocumentChangesThroughChangeId\<close>; \<open>None\<close> when the call is skipped.
\<close>

definition oldestChangeId :: "IndexedDbPersistence \<Rightarrow> DbClientMetadata list \<Rightarrow> int option" where
  "oldestChangeId l activeClients =
     (let activeClients' =
            filter (\<lambda>client. clientId client \<noteq> this_clientId l) activeClients;
          processedChangeIds =
            map (\<lambda>client. orZero (lastProcessedDocumentChangeId client)) activeClients'
      in case processedChangeIds of
           [] \<Rightarrow> None
         | changeId # changeIds \<Rightarrow> Some (Math_min changeId changeIds))"

definition garbageCollectTransaction ::
  "IndexedDbPersistence \<Rightarrow> World \<Rightarrow> (error + DbClientMetadata list) \<times> World" where
  "garbageCollectTransaction l txn =
     (let existingClients = clientMetadata (db txn) in
      case filterActiveClients l txn existingClients
             CLIENT_STATE_GARBAGE_COLLECTION_THRESHOLD_MS of
        Inl e \<Rightarrow> (Inl e, txn)
      | Inr activeClients \<Rightarrow>
          (let inactiveClients =
                 filter (\<lambda>client. client \<notin> set activeClients) existingClients;
               txn1 = txn\<lparr>db := (db txn)\<lparr>clientMetadata :=
                        fold (\<lambda>inactiveClient. clientMetadata_delete (clientId inactiveClient))
                          inactiveClients (clientMetadata (db txn))\<rparr>\<rparr>
           in case oldestChangeId l activeClients of
                None \<Rightarrow> (Inr inactiveClients, txn1)
              | Some oldest \<Rightarrow>
                  (Inr inactiveClients, removeDocumentChangesThroughChangeId oldest txn1)))"

text \<open>
  The \<^verbatim>\<open>forEach\<close> after the transaction: \<^verbatim>\<open>this.window.localStorage.removeItem\<close> is not
  guarded, so it throws where LocalStorage is undefined or throws.
\<close>

fun removeZombiedClientEntries ::
  "IndexedDbPersistence \<Rightarrow> DbClientMetadata list \<Rightarrow> World \<Rightarrow> error + World" where
  "removeZombiedClientEntries l [] w = Inr w"
| "removeZombiedClientEntries l (inactiveClient # rest) w =
     (if \<not> windowDefined (this_platform l) then Inl TypeError
      else case localStorage w of
        StorageUndefined \<Rightarrow> Inl TypeError
      | StorageThrows \<Rightarrow> Inl StorageError
      | Storage m \<Rightarrow>
          removeZombiedClientEntries l rest
            (w\<lparr>localStorage := Storage
               (m(zombiedClientLocalStorageKey l (clientId inactiveClient) := None))\<rparr>))"

definition maybeGarbageCollectMultiClientState ::
  "IndexedDbPersistence \<Rightarrow> World \<Rightarrow> (error + unit) \<times> IndexedDbPersistence \<times> World" where
  "maybeGarbageCollectMultiClientState l w =
     (if this_isPrimary l \<and>
         \<not> (case this_lastGarbageCollectionTime l of
              None \<Rightarrow> False
            | Some t \<Rightarrow> isWithinAge w t CLIENT_STATE_GARBAGE_COLLECTION_THRESHOLD_MS)
      then
        (let l1 = l\<lparr>this_lastGarbageCollectionTime := Some (now w)\<rparr> in
         case runTransaction l1 w ''readwrite'' True (garbageCollectTransaction l1) of
           (Inl e, l2, w2) \<Rightarrow> (Inl e, l2, w2)
         | (Inr inactiveClients, l2, w2) \<Rightarrow>
             (case removeZombiedClientEntries l2 inactiveClients w2 of
                Inl e \<Rightarrow> (Inl e, l2, w2)
              | Inr w3 \<Rightarrow> (Inr (), l2, w3)))
      else (Inr (), l, w))"

definition scheduleClientMetadataAndPrimaryLeaseRefreshes ::
  "IndexedDbPersistence \<Rightarrow> IndexedDbPersistence" where
  "scheduleClientMetadataAndPrimaryLeaseRefreshes l =
     l\<lparr>this_clientMetadataRefresher := Some (Pending CLIENT_METADATA_REFRESH_INTERVAL_MS)\<rparr>"

text \<open>
  The operation \<open>scheduleClientMetadataAndPrimaryLeaseRefreshes\<close> hands to
  \<^verbatim>\<open>enqueueAfterDelay\<close>, run when its timer fires: the pending handle is started, and the
  \<^verbatim>\<open>then\<close> chain schedules the next run only after both steps fulfilled.
\<close>

definition clientMetadataRefresh ::
  "IndexedDbPersistence \<Rightarrow> World \<Rightarrow> (error + unit) \<times> IndexedDbPersistence \<times> World" where
  "clientMetadataRefresh l w =
     (let l0 = l\<lparr>this_clientMetadataRefresher := Some Started\<rparr> in
      case updateClientMetadataAndTryBecomePrimary l0 w of
        (Inl e, l1, w1) \<Rightarrow> (Inl e, l1, w1)
      | (Inr u, l1, w1) \<Rightarrow>
          (case maybeGarbageCollectMultiClientState l1 w1 of
             (Inl e, l2, w2) \<Rightarrow> (Inl e, l2, w2)
           | (Inr u', l2, w2) \<Rightarrow>
               (Inr (), scheduleClientMetadataAndPrimaryLeaseRefreshes l2, w2)))"

subsection \<open>Start and shutdown\<close>

definition attachVisibilityHandler :: "IndexedDbPersistence \<Rightarrow> World \<Rightarrow> IndexedDbPersistence" where
  "attachVisibilityHandler l w =
     (if documentAddEventListener (this_platform l)
      then l\<lparr>this_documentVisibilityHandler := True, this_inForeground := documentVisible w\<rparr>
      else l)"

definition detachVisibilityHandler :: "IndexedDbPersistence \<Rightarrow> error + IndexedDbPersistence" where
  "detachVisibilityHandler l =
     (if this_documentVisibilityHandler l then
        (if documentAddEventListener (this_platform l)
         then Inr (l\<lparr>this_documentVisibilityHandler := False\<rparr>)
         else Inl (AssertionFailed
                ''Expected 'document.addEventListener' to be a function''))
      else Inr l)"

definition attachWindowUnloadHook :: "IndexedDbPersistence \<Rightarrow> IndexedDbPersistence" where
  "attachWindowUnloadHook l =
     (if windowAddEventListener (this_platform l)
      then l\<lparr>this_windowUnloadHandler := True\<rparr>
      else l)"

definition detachWindowUnloadHook :: "IndexedDbPersistence \<Rightarrow> error + IndexedDbPersistence" where
  "detachWindowUnloadHook l =
     (if this_windowUnloadHandler l then
        (if windowRemoveEventListener (this_platform l)
         then Inr (l\<lparr>this_windowUnloadHandler := False\<rparr>)
         else Inl (AssertionFailed
                ''Expected 'window.removeEventListener' to be a function''))
      else Inr l)"

text \<open>
  \<open>startRemoteDocumentCache\<close> runs \<^verbatim>\<open>remoteDocumentCache.start(txn)\<close> of the document cache
  collaborator in a transaction of its own; what the collaborator answers is
  \<open>documentCacheStart\<close>.
\<close>

definition startRemoteDocumentCache ::
  "IndexedDbPersistence \<Rightarrow> World \<Rightarrow> (error + unit) \<times> IndexedDbPersistence \<times> World" where
  "startRemoteDocumentCache l w =
     simpleDb_runTransaction l w (\<lambda>l txn.
       case documentCacheStart txn of
         Inl e \<Rightarrow> (Inl e, l, txn)
       | Inr cursor \<Rightarrow> (Inr (), l\<lparr>this_lastProcessedDocumentChangeId := cursor\<rparr>, txn))"

definition start ::
  "IndexedDbPersistence \<Rightarrow> World \<Rightarrow> (error + unit) \<times> IndexedDbPersistence \<times> World" where
  "start l w =
     (if \<not> simpleDbIsAvailable (this_platform l) then
        (let persistenceError = FirestoreError UNIMPLEMENTED UNSUPPORTED_PLATFORM_ERROR_MSG
         in (Inl persistenceError, l\<lparr>this_persistenceError := Some persistenceError\<rparr>, w))
      else if this_started l then
        (Inl (AssertionFailed ''IndexedDbPersistence double-started!''), l, w)
      else if \<not> windowDefined (this_platform l) then
        (Inl (AssertionFailed ''Expected 'window' to be defined''), l, w)
      else
        (case openOrCreateError w of
           Some e \<Rightarrow> (Inl e, l, w)
         | None \<Rightarrow>
             (let l1 = l\<lparr>this_simpleDb := Some Open\<rparr> in
              case startRemoteDocumentCache l1 w of
                (Inl e, l2, w2) \<Rightarrow> (Inl e, l2, w2)
              | (Inr u, l2, w2) \<Rightarrow>
                  (let l3 = attachWindowUnloadHook (attachVisibilityHandler l2 w2) in
                   case updateClientMetadataAndTryBecomePrimary l3 w2 of
                     (Inl e, l4, w4) \<Rightarrow> (Inl e, l4, w4)
                   | (Inr u', l4, w4) \<Rightarrow>
                       (Inr (),
                        (scheduleClientMetadataAndPrimaryLeaseRefreshes l4)\<lparr>this_started := True\<rparr>,
                        w4)))))"

definition shutdown ::
  "IndexedDbPersistence \<Rightarrow> World \<Rightarrow> bool \<Rightarrow> (error + unit) \<times> IndexedDbPersistence \<times> World" where
  "shutdown l w deleteData =
     (let l1 = l\<lparr>this_started := False\<rparr>;
          w1 = markClientZombied l1 w;
          l2 = (case this_clientMetadataRefresher l1 of
                  None \<Rightarrow> l1
                | Some h \<Rightarrow> l1\<lparr>this_clientMetadataRefresher := Some (cancel h)\<rparr>)
      in case detachVisibilityHandler l2 of
           Inl e \<Rightarrow> (Inl e, l2, w1)
         | Inr l3 \<Rightarrow>
            (case detachWindowUnloadHook l3 of
               Inl e \<Rightarrow> (Inl e, l3, w1)
             | Inr l4 \<Rightarrow>
                (case simpleDb_runTransaction l4 w1 (\<lambda>l txn.
                        case releasePrimaryLeaseIfHeld l txn of
                          (l', txn') \<Rightarrow> (Inr (), l', removeClientMetadata l' txn')) of
                   (Inl e, l5, w5) \<Rightarrow> (Inl e, l5, w5)
                 | (Inr u, l5, w5) \<Rightarrow>
                    (let l6 = l5\<lparr>this_simpleDb := Some Closed\<rparr>;
                         w6 = removeClientZombiedEntry l6 w5
                     in if deleteData then (Inr (), l6, SimpleDb_delete w6)
                        else (Inr (), l6, w6)))))"

subsection \<open>Notions the properties are stated with\<close>

text \<open>
  The surroundings in which \<open>isClientZombied\<close> returns: the window is there, and
  LocalStorage is undefined only under the IndexedDB shim, as its assertion demands.
\<close>

definition zombieCheckSupported :: "IndexedDbPersistence \<Rightarrow> World \<Rightarrow> bool" where
  "zombieCheckSupported l w =
     (windowDefined (this_platform l) \<and>
      (localStorage w = StorageUndefined \<longrightarrow> useMockPersistence (this_platform l)))"

text \<open>
  Following the spec's words, not the code: a client is marked as zombied when the side
  channel holds an entry under the key \<^verbatim>\<open>firestore_zombie_<persistencePrefix>_<clientId>\<close>,
  the prefix being the persistence key the instance was constructed with. A side channel
  that is not available marks nobody.
\<close>

definition markedZombied :: "IndexedDbPersistence \<Rightarrow> World \<Rightarrow> ClientId \<Rightarrow> bool" where
  "markedZombied l w cid =
     (case localStorage w of
        Storage m \<Rightarrow> m (''firestore_zombie_'' @ this_persistenceKey l @ ''_'' @ cid) \<noteq> None
      | StorageUndefined \<Rightarrow> False
      | StorageThrows \<Rightarrow> False)"

text \<open>
  An active client: its metadata was written at most \<open>maxAgeMs\<close> before now and not after
  now, and it is not marked as zombied.
\<close>

definition activeClient :: "IndexedDbPersistence \<Rightarrow> World \<Rightarrow> int \<Rightarrow> DbClientMetadata \<Rightarrow> bool" where
  "activeClient l w maxAgeMs c =
     (now w - maxAgeMs \<le> updateTimeMs c \<and> updateTimeMs c \<le> now w \<and>
      \<not> markedZombied l w (clientId c))"

text \<open>
  Following the spec's words: the stored lease is valid when the \<open>PrimaryClient\<close> record
  exists, its \<open>leaseTimestampMs\<close> lies within 5000 ms before now and not after now, and its
  owner is not marked as zombied; it is the local client's own when its \<open>ownerId\<close> is the
  local \<open>clientId\<close>.
\<close>

definition validLease :: "IndexedDbPersistence \<Rightarrow> World \<Rightarrow> bool" where
  "validLease l w =
     (case primaryClient (db w) of
        None \<Rightarrow> False
      | Some p \<Rightarrow>
          now w - 5000 \<le> leaseTimestampMs p \<and> leaseTimestampMs p \<le> now w \<and>
          \<not> markedZombied l w (ownerId p))"

definition ownLease :: "IndexedDbPersistence \<Rightarrow> World \<Rightarrow> bool" where
  "ownLease l w =
     (case primaryClient (db w) of
        None \<Rightarrow> False
      | Some p \<Rightarrow> ownerId p = this_clientId l)"

text \<open>
  Following the spec's words: the cursor of a client into the change log, a missing one
  counting as 0.
\<close>

definition cursorOf :: "DbClientMetadata \<Rightarrow> int" where
  "cursorOf c = (case lastProcessedDocumentChangeId c of None \<Rightarrow> 0 | Some n \<Rightarrow> n)"

text \<open>The instance's connection takes a transaction: it is open, or closed and lenient.\<close>

definition transactionsRun :: "IndexedDbPersistence \<Rightarrow> bool" where
  "transactionsRun l =
     (case this_simpleDb l of
        None \<Rightarrow> False
      | Some Open \<Rightarrow> True
      | Some Closed \<Rightarrow> closedDbError (this_platform l) = None)"

text \<open>
  The handlers the instance has registered can be detached: the assertions of
  \<open>detachVisibilityHandler\<close> and \<open>detachWindowUnloadHook\<close> hold.
\<close>

definition detachable :: "IndexedDbPersistence \<Rightarrow> bool" where
  "detachable l =
     ((this_documentVisibilityHandler l \<longrightarrow> documentAddEventListener (this_platform l)) \<and>
      (this_windowUnloadHandler l \<longrightarrow> windowRemoveEventListener (this_platform l)))"

text \<open>
  What a \<open>shutdown\<close> that runs to its end leaves: the instance stopped, its timer
  cancelled, its handlers detached and its connection closed; the store without the
  instance's own lease and metadata (or empty, when the data is deleted); LocalStorage
  without the instance's zombie marker.
\<close>

definition instanceAfterShutdown :: "IndexedDbPersistence \<Rightarrow> IndexedDbPersistence" where
  "instanceAfterShutdown l =
     l\<lparr>this_started := False,
       this_clientMetadataRefresher := map_option cancel (this_clientMetadataRefresher l),
       this_documentVisibilityHandler := False, this_windowUnloadHandler := False,
       this_isPrimary := False, this_simpleDb := Some Closed\<rparr>"

definition dbAfterShutdown :: "IndexedDbPersistence \<Rightarrow> Database \<Rightarrow> bool \<Rightarrow> Database" where
  "dbAfterShutdown l d deleteData =
     (if deleteData
      then \<lparr>primaryClient = None, clientMetadata = [], remoteDocumentChangeLog = []\<rparr>
      else d\<lparr>primaryClient :=
               (if isLocalClient l (primaryClient d) then None else primaryClient d),
             clientMetadata := clientMetadata_delete (this_clientId l) (clientMetadata d)\<rparr>)"

definition storageAfterShutdown :: "IndexedDbPersistence \<Rightarrow> LocalStorage \<Rightarrow> LocalStorage" where
  "storageAfterShutdown l s =
     (case s of
        Storage m \<Rightarrow>
          if windowDefined (this_platform l)
          then Storage (m(zombiedClientLocalStorageKey l (this_clientId l) := None))
          else Storage m
      | StorageUndefined \<Rightarrow> StorageUndefined
      | StorageThrows \<Rightarrow> StorageThrows)"

definition worldAfterShutdown :: "IndexedDbPersistence \<Rightarrow> World \<Rightarrow> bool \<Rightarrow> World" where
  "worldAfterShutdown l w deleteData =
     w\<lparr>db := dbAfterShutdown l (db w) deleteData,
       localStorage := storageAfterShutdown l (localStorage w)\<rparr>"

subsection \<open>Two tabs of one application\<close>

text \<open>
  A browser, the started instance of tab \<open>A\<close>, and a world at time 10000 in which \<open>A\<close>
  holds the lease written at 9000 and tab \<open>B\<close>, in the background, wrote its metadata at
  9500. The concrete cases below are variations of these.
\<close>

definition browser :: Platform where
  "browser = \<lparr>simpleDbIsAvailable = True, windowDefined = True,
     windowAddEventListener = True, windowRemoveEventListener = True,
     documentAddEventListener = True, useMockPersistence = False,
     closedDbError = Some InvalidStateError\<rparr>"

definition tabA :: IndexedDbPersistence where
  "tabA = \<lparr>this_persistenceKey = ''app'', this_clientId = ''A'', this_platform = browser,
     this_allowTabSynchronization = True, this_simpleDb = Some Open, this_started = True,
     this_isPrimary = True, this_networkEnabled = True, this_inForeground = True,
     this_persistenceError = None, this_windowUnloadHandler = True,
     this_documentVisibilityHandler = True,
     this_clientMetadataRefresher = Some (Pending 4000),
     this_lastGarbageCollectionTime = None, this_lastProcessedDocumentChangeId = Some 1,
     this_queue = []\<rparr>"

text \<open>
  The instance of tab \<open>A\<close> as its constructor leaves it, before \<^verbatim>\<open>start()\<close>, and a platform
  on which \<^verbatim>\<open>SimpleDb.isAvailable()\<close> is false.
\<close>

definition newTabA :: IndexedDbPersistence where
  "newTabA = \<lparr>this_persistenceKey = ''app'', this_clientId = ''A'', this_platform = browser,
     this_allowTabSynchronization = True, this_simpleDb = None, this_started = False,
     this_isPrimary = False, this_networkEnabled = True, this_inForeground = False,
     this_persistenceError = None, this_windowUnloadHandler = False,
     this_documentVisibilityHandler = False, this_clientMetadataRefresher = None,
     this_lastGarbageCollectionTime = None, this_lastProcessedDocumentChangeId = None,
     this_queue = []\<rparr>"

definition browserWithoutIndexedDb :: Platform where
  "browserWithoutIndexedDb = browser\<lparr>simpleDbIsAvailable := False\<rparr>"

definition leaseOfA :: DbPrimaryClient where
  "leaseOfA = \<lparr>ownerId = ''A'', allowTabSynchronization = True, leaseTimestampMs = 9000\<rparr>"

definition leaseOfB :: DbPrimaryClient where
  "leaseOfB = \<lparr>ownerId = ''B'', allowTabSynchronization = False, leaseTimestampMs = 9000\<rparr>"

definition metadataOfA :: DbClientMetadata where
  "metadataOfA = \<lparr>clientId = ''A'', updateTimeMs = 9000, networkEnabled = True,
     inForeground = True, lastProcessedDocumentChangeId = Some 1\<rparr>"

definition metadataOfB :: DbClientMetadata where
  "metadataOfB = \<lparr>clientId = ''B'', updateTimeMs = 9500, networkEnabled = True,
     inForeground = False, lastProcessedDocumentChangeId = Some 5\<rparr>"

definition sharedDb :: Database where
  "sharedDb = \<lparr>primaryClient = Some leaseOfA, clientMetadata = [metadataOfA, metadataOfB],
     remoteDocumentChangeLog = [1, 2, 3, 4, 5, 6]\<rparr>"

text \<open>LocalStorage in which tab \<open>B\<close>, and nobody else, has left its zombie marker.\<close>

definition markerOfB :: LocalStorage where
  "markerOfB = Storage [''firestore_zombie_app_B'' \<mapsto> ''9990'']"

definition world0 :: World where
  "world0 = \<lparr>now = 10000, db = sharedDb, localStorage = Storage Map.empty,
     documentVisible = True, openOrCreateError = None, documentCacheStart = Inr (Some 1)\<rparr>"

section \<open>Properties\<close>

subsection \<open>Age and zombie markers\<close>

lemma isWithinAge_iff:
  "isWithinAge w t maxAgeMs \<longleftrightarrow> now w - maxAgeMs \<le> t \<and> t \<le> now w"
  by (auto simp: isWithinAge_def Let_def)

lemma zombiedClientLocalStorageKey_format:
  "zombiedClientLocalStorageKey l cid = ''firestore_zombie_'' @ this_persistenceKey l @ ''_'' @ cid"
  by (simp add: zombiedClientLocalStorageKey_def ZOMBIED_CLIENTS_KEY_PREFIX_def)

lemma isClientZombied_supported:
  "zombieCheckSupported l w \<Longrightarrow>
   isClientZombied l w cid =
     Inr (case localStorage w of
            Storage m \<Rightarrow> Some (markedZombied l w cid)
          | StorageUndefined \<Rightarrow> None
          | StorageThrows \<Rightarrow> None)"
  by (auto simp: zombieCheckSupported_def isClientZombied_def markedZombied_def
             zombiedClientLocalStorageKey_format
           split: LocalStorage.splits)

lemma not_zombied_supported:
  "zombieCheckSupported l w \<Longrightarrow>
   (case isClientZombied l w cid of Inl e \<Rightarrow> Inl e | Inr z \<Rightarrow> Inr (f (js_not z))) =
     Inr (f (\<not> markedZombied l w cid))"
  by (auto simp: isClientZombied_supported js_not_def markedZombied_def
           split: LocalStorage.splits)

lemma currentLeaseIsValid_supported:
  assumes "zombieCheckSupported l w"
  shows "currentLeaseIsValid l w currentPrimary =
           Inr (\<exists>p. currentPrimary = Some p \<and>
                    isWithinAge w (leaseTimestampMs p) CLIENT_METADATA_MAX_AGE_MS \<and>
                    \<not> markedZombied l w (ownerId p))"
  using not_zombied_supported [OF assms, where f = "\<lambda>b. b"]
  by (auto simp: currentLeaseIsValid_def split: option.splits)

lemma isClientZombied_returns:
  "isClientZombied l w cid = Inr z \<Longrightarrow> zombieCheckSupported l w"
  by (auto simp: isClientZombied_def zombieCheckSupported_def
           split: if_splits LocalStorage.splits)

lemma currentLeaseIsValid_True:
  "currentLeaseIsValid l w currentPrimary = Inr True \<Longrightarrow> zombieCheckSupported l w"
  by (auto simp: currentLeaseIsValid_def split: option.splits if_splits sum.splits
           dest: isClientZombied_returns)

lemma currentLeaseIsValid_same_clock:
  "now w' = now w \<Longrightarrow> localStorage w' = localStorage w \<Longrightarrow>
   currentLeaseIsValid l w' cp = currentLeaseIsValid l w cp"
  by (simp add: currentLeaseIsValid_def isWithinAge_def isClientZombied_def
           split: option.splits)

lemma filterActiveClients_supported:
  assumes "zombieCheckSupported l w"
  shows "filterActiveClients l w clients maxAgeMs =
           Inr (filter (activeClient l w maxAgeMs) clients)"
proof (induction clients)
  case Nil
  show ?case by simp
next
  case (Cons c cs)
  show ?case
    using Cons.IH isClientZombied_supported [OF assms, of "clientId c"]
    by (auto simp: activeClient_def isWithinAge_iff js_not_def markedZombied_def
             split: LocalStorage.splits)
qed

lemma tabA_world0_supported: "zombieCheckSupported tabA world0"
  by (simp add: zombieCheckSupported_def tabA_def world0_def browser_def)

lemma tabA_world0_nobody_zombied: "markedZombied tabA world0 cid = False"
  by (simp add: markedZombied_def world0_def)

subsection \<open>Transactions that run\<close>

lemma simpleDb_runTransaction_runs:
  "transactionsRun l \<Longrightarrow>
   simpleDb_runTransaction l w f =
     (case f l w of
        (Inl e, l', w') \<Rightarrow> (Inl e, l', w'\<lparr>db := db w\<rparr>)
      | (Inr r, l', w') \<Rightarrow> (Inr r, l', w'))"
  by (auto simp: simpleDb_runTransaction_def transactionsRun_def Let_def
           split: option.splits SimpleDb.splits)

lemma tabA_transactionsRun: "transactionsRun tabA"
  by (simp add: transactionsRun_def tabA_def)

subsection \<open>The steps of \<open>canActAsPrimary\<close>\<close>

lemma find_preferredCandidate:
  "(find (preferredCandidate l) cs = None) =
     (\<not> (\<exists>P\<in>set cs. clientId P \<noteq> this_clientId l \<and>
           (networkEnabled P \<and> \<not> this_networkEnabled l \<or>
            inForeground P \<and> \<not> this_inForeground l \<and>
            networkEnabled P = this_networkEnabled l)))"
  by (auto simp: find_None_iff preferredCandidate_def Let_def)

lemma canActAsPrimary_scan:
  assumes "zombieCheckSupported l w"
    and "currentLeaseIsValid l w (primaryClient (db w)) = Inr valid"
    and "valid \<longrightarrow> isLocalClient l (primaryClient (db w)) \<and> \<not> this_networkEnabled l"
    and "\<not> (this_networkEnabled l \<and> this_inForeground l)"
  shows "canActAsPrimary l w =
           Inr (\<not> (\<exists>P\<in>set (clientMetadata (db w)).
                     activeClient l w 5000 P \<and> clientId P \<noteq> this_clientId l \<and>
                     (networkEnabled P \<and> \<not> this_networkEnabled l \<or>
                      inForeground P \<and> \<not> this_inForeground l \<and>
                      networkEnabled P = this_networkEnabled l)))"
  using assms(2-4)
  by (auto simp: canActAsPrimary_def Let_def filterActiveClients_supported [OF assms(1)]
        find_preferredCandidate CLIENT_METADATA_MAX_AGE_MS_def)

lemma canActAsPrimary_own_lease_online:
  assumes "currentLeaseIsValid l w (primaryClient (db w)) = Inr True"
    and "isLocalClient l (primaryClient (db w))"
    and "this_networkEnabled l"
  shows "canActAsPrimary l w = Inr True"
  using assms by (simp add: canActAsPrimary_def)

lemma canActAsPrimary_shared_lease_of_other:
  assumes "primaryClient (db w) = Some p"
    and "currentLeaseIsValid l w (Some p) = Inr True"
    and "ownerId p \<noteq> this_clientId l"
    and "allowTabSynchronization p"
  shows "canActAsPrimary l w = Inr False"
  using assms by (simp add: canActAsPrimary_def isLocalClient_def)

lemma canActAsPrimary_exclusive:
  assumes "primaryClient (db w) = Some p"
    and "currentLeaseIsValid l w (Some p) = Inr True"
    and "ownerId p \<noteq> this_clientId l"
    and "\<not> allowTabSynchronization p"
  shows "canActAsPrimary l w = Inl PRIMARY_LEASE_EXCLUSIVE"
  using assms by (simp add: canActAsPrimary_def isLocalClient_def)

lemma verifyAllowTabSynchronization_exclusive:
  assumes "primaryClient (db w) = Some p"
    and "currentLeaseIsValid l w (Some p) = Inr True"
    and "ownerId p \<noteq> this_clientId l"
    and "\<not> allowTabSynchronization p"
  shows "verifyAllowTabSynchronization l w = Inl PRIMARY_LEASE_EXCLUSIVE"
  using assms by (simp add: verifyAllowTabSynchronization_def isLocalClient_def)

subsection \<open>Evaluating the concrete cases\<close>

lemmas scenario_defs = tabA_def world0_def sharedDb_def leaseOfA_def leaseOfB_def metadataOfA_def
  metadataOfB_def browser_def

lemmas code_defs = canActAsPrimary_def currentLeaseIsValid_def isLocalClient_def
        isWithinAge_def isClientZombied_def js_not_def preferredCandidate_def
        zombiedClientLocalStorageKey_def CLIENT_METADATA_MAX_AGE_MS_def
        CLIENT_STATE_GARBAGE_COLLECTION_THRESHOLD_MS_def CLIENT_METADATA_REFRESH_INTERVAL_MS_def
        updateClientMetadataAndTryBecomePrimary_def simpleDb_runTransaction_def
        clientMetadata_put_def acquireOrExtendPrimaryLease_def releasePrimaryLeaseIfHeld_def
        runTransaction_def garbageCollectTransaction_def oldestChangeId_def orZero_def
        clientMetadata_delete_def removeDocumentChangesThroughChangeId_def
        maybeGarbageCollectMultiClientState_def clientMetadataRefresh_def
        scheduleClientMetadataAndPrimaryLeaseRefreshes_def

lemmas notion_defs = zombieCheckSupported_def markedZombied_def activeClient_def validLease_def
  ownLease_def cursorOf_def markerOfB_def

subsection \<open>The code's checks and the notions of the properties\<close>

lemma currentLeaseIsValid_validLease:
  assumes "zombieCheckSupported l w"
  shows "currentLeaseIsValid l w (primaryClient (db w)) = Inr (validLease l w)"
  using currentLeaseIsValid_supported [OF assms, of "primaryClient (db w)"]
  by (cases "primaryClient (db w)")
     (simp_all add: validLease_def isWithinAge_iff CLIENT_METADATA_MAX_AGE_MS_def)

lemma isLocalClient_ownLease: "isLocalClient l (primaryClient (db w)) = ownLease l w"
  by (simp add: isLocalClient_def ownLease_def)

subsection \<open>When a lease is valid\<close>

text \<open>
  C3. Where the zombie check is supported, the lease read from the store is considered
  valid exactly when the record exists, its \<open>leaseTimestampMs\<close> is at most 5000 ms before
  now and not after now (a timestamp of the future is not within age), and its owner is
  not marked as zombied in LocalStorage.
\<close>

theorem lease_valid_iff:
  assumes "zombieCheckSupported l w"
  shows "currentLeaseIsValid l w currentPrimary =
           Inr (\<exists>p. currentPrimary = Some p \<and>
                    now w - 5000 \<le> leaseTimestampMs p \<and> leaseTimestampMs p \<le> now w \<and>
                    \<not> markedZombied l w (ownerId p))"
  using currentLeaseIsValid_supported [OF assms, of currentPrimary]
  by (simp add: isWithinAge_iff CLIENT_METADATA_MAX_AGE_MS_def)

text \<open>
  At time 10000 the lease \<open>A\<close> wrote at 9000 is valid; one dated 10001 is not, and neither
  is the lease from 9000 at time 14001. A lease of \<open>B\<close> from 9000 is valid as long as
  LocalStorage holds no entry \<open>firestore_zombie_app_B\<close>; with that entry it is not, while
  the lease of \<open>A\<close> still is: \<open>isClientZombied\<close> finds that entry for \<open>B\<close> and for no one
  else. No lease is not a valid lease.
\<close>

theorem lease_valid_iff_witness:
  "zombieCheckSupported tabA world0 \<and>
   currentLeaseIsValid tabA world0 (Some leaseOfA) = Inr True \<and>
   currentLeaseIsValid tabA world0 (Some (leaseOfA\<lparr>leaseTimestampMs := 10001\<rparr>)) = Inr False \<and>
   currentLeaseIsValid tabA (world0\<lparr>now := 14001\<rparr>) (Some leaseOfA) = Inr False \<and>
   currentLeaseIsValid tabA world0 (Some leaseOfB) = Inr True \<and>
   currentLeaseIsValid tabA (world0\<lparr>localStorage := markerOfB\<rparr>) (Some leaseOfB) = Inr False \<and>
   currentLeaseIsValid tabA (world0\<lparr>localStorage := markerOfB\<rparr>) (Some leaseOfA) = Inr True \<and>
   currentLeaseIsValid tabA world0 None = Inr False \<and>
   isClientZombied tabA (world0\<lparr>localStorage := markerOfB\<rparr>) ''B'' = Inr (Some True) \<and>
   isClientZombied tabA (world0\<lparr>localStorage := markerOfB\<rparr>) ''A'' = Inr (Some False) \<and>
   isClientZombied tabA world0 ''B'' = Inr (Some False)"
proof -
  have z: "isClientZombied tabA (world0\<lparr>localStorage := markerOfB\<rparr>) ''B'' = Inr (Some True)"
    "isClientZombied tabA (world0\<lparr>localStorage := markerOfB\<rparr>) ''A'' = Inr (Some False)"
    "isClientZombied tabA world0 ''B'' = Inr (Some False)"
    by (simp_all add: code_defs scenario_defs markerOfB_def ZOMBIED_CLIENTS_KEY_PREFIX_def)
  have s: "zombieCheckSupported tabA world0"
    and s': "zombieCheckSupported tabA (world0\<lparr>now := 14001\<rparr>)"
    and s'': "zombieCheckSupported tabA (world0\<lparr>localStorage := markerOfB\<rparr>)"
    by (simp_all add: notion_defs scenario_defs)
  have "currentLeaseIsValid tabA world0 (Some leaseOfA) = Inr True"
    using lease_valid_iff [OF s, of "Some leaseOfA"] by (simp add: notion_defs scenario_defs)
  moreover have "currentLeaseIsValid tabA world0 (Some (leaseOfA\<lparr>leaseTimestampMs := 10001\<rparr>)) = Inr False"
    using lease_valid_iff [OF s, of "Some (leaseOfA\<lparr>leaseTimestampMs := 10001\<rparr>)"]
    by (simp add: notion_defs scenario_defs)
  moreover have "currentLeaseIsValid tabA (world0\<lparr>now := 14001\<rparr>) (Some leaseOfA) = Inr False"
    using lease_valid_iff [OF s', of "Some leaseOfA"] by (simp add: notion_defs scenario_defs)
  moreover have "currentLeaseIsValid tabA world0 (Some leaseOfB) = Inr True"
    using lease_valid_iff [OF s, of "Some leaseOfB"] by (simp add: notion_defs scenario_defs)
  moreover have "currentLeaseIsValid tabA (world0\<lparr>localStorage := markerOfB\<rparr>) (Some leaseOfB) = Inr False"
    using lease_valid_iff [OF s'', of "Some leaseOfB"] by (simp add: notion_defs scenario_defs)
  moreover have "currentLeaseIsValid tabA (world0\<lparr>localStorage := markerOfB\<rparr>) (Some leaseOfA) = Inr True"
    using lease_valid_iff [OF s'', of "Some leaseOfA"] by (simp add: notion_defs scenario_defs)
  moreover have "currentLeaseIsValid tabA world0 None = Inr False"
    using lease_valid_iff [OF s, of None] by simp
  ultimately show ?thesis using s z by simp
qed

subsection \<open>Releasing the lease\<close>

text \<open>
  C8. \<open>releasePrimaryLeaseIfHeld\<close> always clears the local \<open>isPrimary\<close> flag and nothing else
  of the instance; it deletes the \<open>PrimaryClient\<close> record exactly when the record's
  \<open>ownerId\<close> is the local \<open>clientId\<close>, and leaves the whole world as it was when the
  record is absent or owned by another client.
\<close>

theorem release_lease_if_held_effect:
  "releasePrimaryLeaseIfHeld l w =
     (l\<lparr>this_isPrimary := False\<rparr>,
      if (\<exists>p. primaryClient (db w) = Some p \<and> ownerId p = this_clientId l)
      then w\<lparr>db := (db w)\<lparr>primaryClient := None\<rparr>\<rparr>
      else w)"
  by (auto simp: releasePrimaryLeaseIfHeld_def isLocalClient_def Let_def split: option.splits)

text \<open>
  Tab \<open>A\<close> releases its own lease, and leaves the store alone when the lease is the one
  of \<open>B\<close> or when there is none.
\<close>

theorem release_lease_if_held_effect_witness:
  "releasePrimaryLeaseIfHeld tabA world0 =
     (tabA\<lparr>this_isPrimary := False\<rparr>, world0\<lparr>db := sharedDb\<lparr>primaryClient := None\<rparr>\<rparr>) \<and>
   releasePrimaryLeaseIfHeld tabA (world0\<lparr>db := sharedDb\<lparr>primaryClient := Some leaseOfB\<rparr>\<rparr>) =
     (tabA\<lparr>this_isPrimary := False\<rparr>, world0\<lparr>db := sharedDb\<lparr>primaryClient := Some leaseOfB\<rparr>\<rparr>) \<and>
   releasePrimaryLeaseIfHeld tabA (world0\<lparr>db := sharedDb\<lparr>primaryClient := None\<rparr>\<rparr>) =
     (tabA\<lparr>this_isPrimary := False\<rparr>, world0\<lparr>db := sharedDb\<lparr>primaryClient := None\<rparr>\<rparr>)"
  using release_lease_if_held_effect [of tabA world0]
    release_lease_if_held_effect [of tabA "world0\<lparr>db := sharedDb\<lparr>primaryClient := Some leaseOfB\<rparr>\<rparr>"]
    release_lease_if_held_effect [of tabA "world0\<lparr>db := sharedDb\<lparr>primaryClient := None\<rparr>\<rparr>"]
  by (simp add: tabA_def world0_def sharedDb_def leaseOfA_def leaseOfB_def)

subsection \<open>The two tabs\<close>

lemma isClientZombied_same_instance:
  "this_persistenceKey l' = this_persistenceKey l \<Longrightarrow> this_platform l' = this_platform l \<Longrightarrow>
   isClientZombied l' w cid = isClientZombied l w cid"
  by (simp add: isClientZombied_def zombiedClientLocalStorageKey_def split: LocalStorage.splits)

lemma currentLeaseIsValid_same_instance:
  "this_persistenceKey l' = this_persistenceKey l \<Longrightarrow> this_platform l' = this_platform l \<Longrightarrow>
   currentLeaseIsValid l' w cp = currentLeaseIsValid l w cp"
  unfolding currentLeaseIsValid_def
  by (simp add: isClientZombied_same_instance [of l' l] split: option.splits)

lemma browser_supported:
  "this_platform l = browser \<Longrightarrow> localStorage w = Storage m \<Longrightarrow> zombieCheckSupported l w"
  by (simp add: zombieCheckSupported_def browser_def)

lemma empty_storage_nobody_zombied:
  "localStorage w = Storage Map.empty \<Longrightarrow> markedZombied l w cid = False"
  by (simp add: markedZombied_def)

lemma lease_written_9000_valid:
  assumes "this_platform l = browser" "localStorage w = Storage Map.empty" "now w = 10000"
    and "leaseTimestampMs p = 9000"
  shows "currentLeaseIsValid l w (Some p) = Inr True"
  using currentLeaseIsValid_supported [OF browser_supported [OF assms(1,2)], of "Some p"]
  by (simp add: empty_storage_nobody_zombied [OF assms(2)] isWithinAge_iff assms(3,4)
        CLIENT_METADATA_MAX_AGE_MS_def)

lemma B_active:
  assumes "localStorage w = Storage Map.empty" "now w = 10000" "updateTimeMs c = 9500"
  shows "activeClient l w 5000 c"
  using assms by (simp add: activeClient_def empty_storage_nobody_zombied)

subsection \<open>Eligibility\<close>

text \<open>
  C1, as the code has it. Where the zombie check is supported and the stored lease is
  valid (written at most 5000 ms ago, not in the future, its owner not marked as zombied
  by an entry \<open>firestore_zombie_<persistenceKey>_<clientId>\<close>) and owned by the local
  client, \<open>canActAsPrimary\<close> returns true when the local \<open>networkEnabled\<close> is true. When
  it is false the function does not return false outright: it goes on to the scan of the
  other clients and returns true exactly when no other active client has its network
  enabled or is in the foreground while the local client is not.
\<close>

theorem own_valid_lease_eligibility:
  assumes "zombieCheckSupported l w" and "validLease l w" and "ownLease l w"
  shows "canActAsPrimary l w =
           Inr (this_networkEnabled l \<or>
                \<not> (\<exists>P\<in>set (clientMetadata (db w)).
                      activeClient l w 5000 P \<and> clientId P \<noteq> this_clientId l \<and>
                      (networkEnabled P \<or> inForeground P \<and> \<not> this_inForeground l)))"
proof -
  have v: "currentLeaseIsValid l w (primaryClient (db w)) = Inr True"
    using currentLeaseIsValid_validLease [OF assms(1)] assms(2) by simp
  have i: "isLocalClient l (primaryClient (db w))"
    using assms(3) by (simp add: isLocalClient_ownLease)
  show ?thesis
  proof (cases "this_networkEnabled l")
    case True
    with v i show ?thesis
      by (simp add: canActAsPrimary_own_lease_online)
  next
    case False
    from canActAsPrimary_scan [OF assms(1) v] i False show ?thesis
      by auto
  qed
qed

text \<open>
  Tab \<open>A\<close> holds the valid lease. With its network enabled it may act as primary; with
  its network disabled it may not, since \<open>B\<close> is online; it may again once \<open>B\<close> is marked
  as zombied (\<open>filterActiveClients\<close> then keeps \<open>A\<close> alone), or once the metadata of \<open>B\<close>
  is older than 5000 ms.
\<close>

theorem own_valid_lease_eligibility_witness:
  "zombieCheckSupported tabA world0 \<and> validLease tabA world0 \<and> ownLease tabA world0 \<and>
   canActAsPrimary tabA world0 = Inr True \<and>
   canActAsPrimary (tabA\<lparr>this_networkEnabled := False\<rparr>) world0 = Inr False \<and>
   canActAsPrimary (tabA\<lparr>this_networkEnabled := False\<rparr>)
     (world0\<lparr>localStorage := markerOfB\<rparr>) = Inr True \<and>
   canActAsPrimary (tabA\<lparr>this_networkEnabled := False\<rparr>)
     (world0\<lparr>db := sharedDb\<lparr>clientMetadata :=
        [metadataOfA, metadataOfB\<lparr>updateTimeMs := 4999\<rparr>]\<rparr>\<rparr>) = Inr True \<and>
   filterActiveClients (tabA\<lparr>this_networkEnabled := False\<rparr>)
     (world0\<lparr>localStorage := markerOfB\<rparr>) [metadataOfA, metadataOfB] 5000 =
     Inr [metadataOfA]"
proof -
  let ?l = "tabA\<lparr>this_networkEnabled := False\<rparr>"
  let ?wz = "world0\<lparr>localStorage := markerOfB\<rparr>"
  have f: "filterActiveClients ?l ?wz [metadataOfA, metadataOfB] 5000 = Inr [metadataOfA]"
    by (simp add: code_defs scenario_defs markerOfB_def ZOMBIED_CLIENTS_KEY_PREFIX_def)
  let ?ws = "world0\<lparr>db := sharedDb\<lparr>clientMetadata :=
        [metadataOfA, metadataOfB\<lparr>updateTimeMs := 4999\<rparr>]\<rparr>\<rparr>"
  have h: "zombieCheckSupported tabA world0" "validLease tabA world0" "ownLease tabA world0"
    by (simp_all add: notion_defs scenario_defs)
  have h': "zombieCheckSupported ?l world0" "validLease ?l world0" "ownLease ?l world0"
    by (simp_all add: notion_defs scenario_defs)
  have hz: "zombieCheckSupported ?l ?wz" "validLease ?l ?wz" "ownLease ?l ?wz"
    by (simp_all add: notion_defs scenario_defs)
  have hs: "zombieCheckSupported ?l ?ws" "validLease ?l ?ws" "ownLease ?l ?ws"
    by (simp_all add: notion_defs scenario_defs)
  have "canActAsPrimary tabA world0 = Inr True"
    using own_valid_lease_eligibility [OF h] by (simp add: notion_defs scenario_defs)
  moreover have "canActAsPrimary ?l world0 = Inr False"
    using own_valid_lease_eligibility [OF h'] by (simp add: notion_defs scenario_defs)
  moreover have "canActAsPrimary ?l ?wz = Inr True"
    using own_valid_lease_eligibility [OF hz] by (simp add: notion_defs scenario_defs)
  moreover have "canActAsPrimary ?l ?ws = Inr True"
    using own_valid_lease_eligibility [OF hs] by (simp add: notion_defs scenario_defs)
  ultimately show ?thesis using h f by simp
qed

text \<open>
  C1 as stated fails: \<open>A\<close> holds the valid lease, its network is disabled, and the only
  other client is offline and in the background; \<open>canActAsPrimary\<close> returns true.
\<close>

theorem own_valid_lease_network_disabled_counterexample:
  "validLease (tabA\<lparr>this_networkEnabled := False\<rparr>)
     (world0\<lparr>db := sharedDb\<lparr>clientMetadata :=
        [metadataOfA, metadataOfB\<lparr>networkEnabled := False\<rparr>]\<rparr>\<rparr>) \<and>
   ownLease (tabA\<lparr>this_networkEnabled := False\<rparr>)
     (world0\<lparr>db := sharedDb\<lparr>clientMetadata :=
        [metadataOfA, metadataOfB\<lparr>networkEnabled := False\<rparr>]\<rparr>\<rparr>) \<and>
   currentLeaseIsValid (tabA\<lparr>this_networkEnabled := False\<rparr>)
     (world0\<lparr>db := sharedDb\<lparr>clientMetadata :=
        [metadataOfA, metadataOfB\<lparr>networkEnabled := False\<rparr>]\<rparr>\<rparr>)
     (Some leaseOfA) = Inr True \<and>
   isLocalClient (tabA\<lparr>this_networkEnabled := False\<rparr>) (Some leaseOfA) \<and>
   this_networkEnabled (tabA\<lparr>this_networkEnabled := False\<rparr>) = False \<and>
   canActAsPrimary (tabA\<lparr>this_networkEnabled := False\<rparr>)
     (world0\<lparr>db := sharedDb\<lparr>clientMetadata :=
        [metadataOfA, metadataOfB\<lparr>networkEnabled := False\<rparr>]\<rparr>\<rparr>) = Inr True"
  by (simp add: notion_defs code_defs scenario_defs)

text \<open>
  C4. Where the zombie check is supported, a call of \<open>canActAsPrimary\<close> that reaches the
  scan of the other clients (the stored lease is not valid, or it is the local client's
  own while its network is disabled; and the local client is not both network-enabled
  and in the foreground) returns true exactly when no other active client \<open>P\<close> (metadata
  written at most 5000 ms ago, not marked as zombied) is preferred: \<open>P\<close> has its network
  enabled and the local client has not, or \<open>P\<close> is in the foreground, the local client
  is not, and both have the same network state. A client that is no better than the
  local one does not count.
\<close>

theorem peer_scan_result:
  assumes "zombieCheckSupported l w"
    and "validLease l w \<longrightarrow> ownLease l w \<and> \<not> this_networkEnabled l"
    and "\<not> (this_networkEnabled l \<and> this_inForeground l)"
  shows "canActAsPrimary l w =
           Inr (\<not> (\<exists>P\<in>set (clientMetadata (db w)).
                     activeClient l w 5000 P \<and> clientId P \<noteq> this_clientId l \<and>
                     (networkEnabled P \<and> \<not> this_networkEnabled l \<or>
                      inForeground P \<and> \<not> this_inForeground l \<and>
                      networkEnabled P = this_networkEnabled l)))"
proof (rule canActAsPrimary_scan [OF assms(1) currentLeaseIsValid_validLease [OF assms(1)] _ assms(3)])
  show "validLease l w \<longrightarrow> isLocalClient l (primaryClient (db w)) \<and> \<not> this_networkEnabled l"
    using assms(2) by (simp add: isLocalClient_ownLease)
qed

text \<open>
  No lease is stored and \<open>A\<close> is online in the background. With \<open>B\<close> online in the
  background as well, \<open>A\<close> is eligible; with \<open>B\<close> in the foreground it is not, unless
  \<open>B\<close> is marked as zombied (\<open>filterActiveClients\<close> then keeps \<open>A\<close> alone) or its metadata
  is older than 5000 ms. A lease that \<open>B\<close>
  holds for itself alone does not count either once \<open>B\<close> is marked as zombied.
\<close>

theorem peer_scan_result_witness:
  "zombieCheckSupported (tabA\<lparr>this_inForeground := False\<rparr>)
     (world0\<lparr>db := sharedDb\<lparr>primaryClient := None\<rparr>\<rparr>) \<and>
   validLease (tabA\<lparr>this_inForeground := False\<rparr>)
     (world0\<lparr>db := sharedDb\<lparr>primaryClient := None\<rparr>\<rparr>) = False \<and>
   canActAsPrimary (tabA\<lparr>this_inForeground := False\<rparr>)
     (world0\<lparr>db := sharedDb\<lparr>primaryClient := None\<rparr>\<rparr>) = Inr True \<and>
   canActAsPrimary (tabA\<lparr>this_inForeground := False\<rparr>)
     (world0\<lparr>db := sharedDb\<lparr>primaryClient := None,
        clientMetadata := [metadataOfA, metadataOfB\<lparr>inForeground := True\<rparr>]\<rparr>\<rparr>) = Inr False \<and>
   canActAsPrimary (tabA\<lparr>this_inForeground := False\<rparr>)
     (world0\<lparr>db := sharedDb\<lparr>primaryClient := None,
        clientMetadata := [metadataOfA, metadataOfB\<lparr>inForeground := True\<rparr>]\<rparr>,
        localStorage := markerOfB\<rparr>) = Inr True \<and>
   canActAsPrimary (tabA\<lparr>this_inForeground := False\<rparr>)
     (world0\<lparr>db := sharedDb\<lparr>primaryClient := None,
        clientMetadata :=
          [metadataOfA, metadataOfB\<lparr>inForeground := True, updateTimeMs := 4999\<rparr>]\<rparr>\<rparr>) = Inr True \<and>
   canActAsPrimary (tabA\<lparr>this_inForeground := False\<rparr>)
     (world0\<lparr>db := sharedDb\<lparr>primaryClient := Some leaseOfB,
        clientMetadata := [metadataOfA, metadataOfB\<lparr>inForeground := True\<rparr>]\<rparr>,
        localStorage := markerOfB\<rparr>) = Inr True \<and>
   filterActiveClients (tabA\<lparr>this_inForeground := False\<rparr>)
     (world0\<lparr>db := sharedDb\<lparr>primaryClient := None,
        clientMetadata := [metadataOfA, metadataOfB\<lparr>inForeground := True\<rparr>]\<rparr>,
        localStorage := markerOfB\<rparr>)
     [metadataOfA, metadataOfB\<lparr>inForeground := True\<rparr>] 5000 = Inr [metadataOfA]"
proof -
  let ?l = "tabA\<lparr>this_inForeground := False\<rparr>"
  let ?w1 = "world0\<lparr>db := sharedDb\<lparr>primaryClient := None\<rparr>\<rparr>"
  let ?w2 = "world0\<lparr>db := sharedDb\<lparr>primaryClient := None,
        clientMetadata := [metadataOfA, metadataOfB\<lparr>inForeground := True\<rparr>]\<rparr>\<rparr>"
  let ?w3 = "world0\<lparr>db := sharedDb\<lparr>primaryClient := None,
        clientMetadata := [metadataOfA, metadataOfB\<lparr>inForeground := True\<rparr>]\<rparr>,
        localStorage := markerOfB\<rparr>"
  let ?w4 = "world0\<lparr>db := sharedDb\<lparr>primaryClient := None,
        clientMetadata :=
          [metadataOfA, metadataOfB\<lparr>inForeground := True, updateTimeMs := 4999\<rparr>]\<rparr>\<rparr>"
  let ?w5 = "world0\<lparr>db := sharedDb\<lparr>primaryClient := Some leaseOfB,
        clientMetadata := [metadataOfA, metadataOfB\<lparr>inForeground := True\<rparr>]\<rparr>,
        localStorage := markerOfB\<rparr>"
  have n: "\<not> (this_networkEnabled ?l \<and> this_inForeground ?l)" by simp
  have s1: "zombieCheckSupported ?l ?w1" and s2: "zombieCheckSupported ?l ?w2"
    and s3: "zombieCheckSupported ?l ?w3" and s4: "zombieCheckSupported ?l ?w4"
    and s5: "zombieCheckSupported ?l ?w5"
    by (simp_all add: notion_defs scenario_defs)
  have v1: "validLease ?l ?w1 = False" and v2: "validLease ?l ?w2 = False"
    and v3: "validLease ?l ?w3 = False" and v4: "validLease ?l ?w4 = False"
    and v5: "validLease ?l ?w5 = False"
    by (simp_all add: notion_defs scenario_defs)
  have "canActAsPrimary ?l ?w1 = Inr True"
    using peer_scan_result [OF s1 _ n] v1 by (simp add: notion_defs scenario_defs)
  moreover have "canActAsPrimary ?l ?w2 = Inr False"
    using peer_scan_result [OF s2 _ n] v2 by (simp add: notion_defs scenario_defs)
  moreover have "canActAsPrimary ?l ?w3 = Inr True"
    using peer_scan_result [OF s3 _ n] v3 by (simp add: notion_defs scenario_defs)
  moreover have "canActAsPrimary ?l ?w4 = Inr True"
    using peer_scan_result [OF s4 _ n] v4 by (simp add: notion_defs scenario_defs)
  moreover have "canActAsPrimary ?l ?w5 = Inr True"
    using peer_scan_result [OF s5 _ n] v5 by (simp add: notion_defs scenario_defs)
  moreover have "filterActiveClients ?l ?w3 [metadataOfA, metadataOfB\<lparr>inForeground := True\<rparr>] 5000 =
      Inr [metadataOfA]"
    by (simp add: code_defs scenario_defs markerOfB_def ZOMBIED_CLIENTS_KEY_PREFIX_def)
  ultimately show ?thesis using s1 v1 by simp
qed

subsection \<open>A lease another client holds for itself alone\<close>

text \<open>
  C5. Whenever the stored lease is valid, owned by another client and has
  \<open>allowTabSynchronization\<close> false, \<open>canActAsPrimary\<close> and \<open>verifyAllowTabSynchronization\<close>
  both fail with \<open>PRIMARY_LEASE_EXCLUSIVE\<close>; a \<open>runTransaction\<close> that gets to its
  transaction, with or without the primary lease required, and
  \<open>updateClientMetadataAndTryBecomePrimary\<close> fail with that error, their transaction
  aborts, and the world (the holder's \<open>PrimaryClient\<close> record with it) and the instance
  are as before.
\<close>

theorem exclusive_lease_of_other:
  assumes "primaryClient (db w) = Some p"
    and "currentLeaseIsValid l w (Some p) = Inr True"
    and "ownerId p \<noteq> this_clientId l"
    and "\<not> allowTabSynchronization p"
  shows "canActAsPrimary l w = Inl PRIMARY_LEASE_EXCLUSIVE \<and>
         verifyAllowTabSynchronization l w = Inl PRIMARY_LEASE_EXCLUSIVE \<and>
         (transactionsRun l \<and> this_persistenceError l = None \<longrightarrow>
            runTransaction l w action requirePrimaryLease transactionOperation =
              (Inl PRIMARY_LEASE_EXCLUSIVE, l, w)) \<and>
         (transactionsRun l \<longrightarrow>
            updateClientMetadataAndTryBecomePrimary l w = (Inl PRIMARY_LEASE_EXCLUSIVE, l, w))"
proof -
  have c: "canActAsPrimary l w = Inl PRIMARY_LEASE_EXCLUSIVE"
    by (rule canActAsPrimary_exclusive [OF assms])
  have v: "verifyAllowTabSynchronization l w = Inl PRIMARY_LEASE_EXCLUSIVE"
    by (rule verifyAllowTabSynchronization_exclusive [OF assms])
  have r: "runTransaction l w action requirePrimaryLease transactionOperation =
              (Inl PRIMARY_LEASE_EXCLUSIVE, l, w)"
    if "transactionsRun l" "this_persistenceError l = None"
    using that c v by (simp add: runTransaction_def simpleDb_runTransaction_runs)
  have u: "updateClientMetadataAndTryBecomePrimary l w = (Inl PRIMARY_LEASE_EXCLUSIVE, l, w)"
    if t: "transactionsRun l"
  proof -
    let ?w1 = "w\<lparr>db := (db w)\<lparr>clientMetadata :=
                 clientMetadata_put \<lparr>clientId = this_clientId l, updateTimeMs = now w,
                   networkEnabled = this_networkEnabled l, inForeground = this_inForeground l,
                   lastProcessedDocumentChangeId = this_lastProcessedDocumentChangeId l\<rparr>
                   (clientMetadata (db w))\<rparr>\<rparr>"
    have "currentLeaseIsValid l ?w1 (Some p) = Inr True"
      using assms(2) by (simp add: currentLeaseIsValid_same_clock [of ?w1 w])
    then have "canActAsPrimary l ?w1 = Inl PRIMARY_LEASE_EXCLUSIVE"
      using assms by (intro canActAsPrimary_exclusive [of _ p]) simp_all
    then show ?thesis
      by (simp add: updateClientMetadataAndTryBecomePrimary_def
            simpleDb_runTransaction_runs [OF t] Let_def)
  qed
  from c v r u show ?thesis by blast
qed

text \<open>
  Tab \<open>B\<close> holds the lease for itself alone: \<open>A\<close> is refused, the body of its transaction
  (which would empty the change log) does not run, and the metadata the refresh had put
  is rolled back.
\<close>

theorem exclusive_lease_of_other_witness:
  "primaryClient (db (world0\<lparr>db := sharedDb\<lparr>primaryClient := Some leaseOfB\<rparr>\<rparr>)) = Some leaseOfB \<and>
   currentLeaseIsValid tabA (world0\<lparr>db := sharedDb\<lparr>primaryClient := Some leaseOfB\<rparr>\<rparr>)
     (Some leaseOfB) = Inr True \<and>
   canActAsPrimary tabA (world0\<lparr>db := sharedDb\<lparr>primaryClient := Some leaseOfB\<rparr>\<rparr>) =
     Inl PRIMARY_LEASE_EXCLUSIVE \<and>
   verifyAllowTabSynchronization tabA
     (world0\<lparr>db := sharedDb\<lparr>primaryClient := Some leaseOfB\<rparr>\<rparr>) =
     Inl PRIMARY_LEASE_EXCLUSIVE \<and>
   runTransaction tabA (world0\<lparr>db := sharedDb\<lparr>primaryClient := Some leaseOfB\<rparr>\<rparr>)
     ''write'' False (\<lambda>txn. (Inr (), txn\<lparr>db := (db txn)\<lparr>remoteDocumentChangeLog := []\<rparr>\<rparr>)) =
     (Inl PRIMARY_LEASE_EXCLUSIVE, tabA,
      world0\<lparr>db := sharedDb\<lparr>primaryClient := Some leaseOfB\<rparr>\<rparr>) \<and>
   updateClientMetadataAndTryBecomePrimary tabA
     (world0\<lparr>db := sharedDb\<lparr>primaryClient := Some leaseOfB\<rparr>\<rparr>) =
     (Inl PRIMARY_LEASE_EXCLUSIVE, tabA,
      world0\<lparr>db := sharedDb\<lparr>primaryClient := Some leaseOfB\<rparr>\<rparr>)"
proof -
  let ?w = "world0\<lparr>db := sharedDb\<lparr>primaryClient := Some leaseOfB\<rparr>\<rparr>"
  have pc: "primaryClient (db ?w) = Some leaseOfB" by simp
  have v: "currentLeaseIsValid tabA ?w (Some leaseOfB) = Inr True"
    by (rule lease_written_9000_valid) (simp_all add: tabA_def world0_def leaseOfB_def)
  have o: "ownerId leaseOfB \<noteq> this_clientId tabA"
    by (simp add: leaseOfB_def tabA_def)
  have a: "\<not> allowTabSynchronization leaseOfB"
    by (simp add: leaseOfB_def)
  have e: "this_persistenceError tabA = None"
    by (simp add: tabA_def)
  show ?thesis
    using exclusive_lease_of_other [OF pc v o a, of "''write''" False
        "\<lambda>txn. (Inr (), txn\<lparr>db := (db txn)\<lparr>remoteDocumentChangeLog := []\<rparr>\<rparr>)"]
      tabA_transactionsRun e v
    by simp
qed

subsection \<open>Transactions that require the primary lease\<close>

lemma runTransaction_primary:
  assumes "transactionsRun l" and "this_persistenceError l = None"
  shows "runTransaction l w action True transactionOperation =
     (case canActAsPrimary l w of
        Inl e \<Rightarrow> (Inl e, l, w)
      | Inr can \<Rightarrow>
          if \<not> can then
            (Inl PRIMARY_LEASE_LOST,
             l\<lparr>this_isPrimary := False, this_queue := this_queue l @ [NotifyPrimaryState False]\<rparr>, w)
          else
            (case transactionOperation w of
               (Inl e, w') \<Rightarrow> (Inl e, l, w'\<lparr>db := db w\<rparr>)
             | (Inr result, w') \<Rightarrow> (Inr result, l, acquireOrExtendPrimaryLease l w')))"
  using assms
  by (simp add: runTransaction_def simpleDb_runTransaction_runs split: sum.splits prod.splits)

text \<open>
  C2. For a \<open>runTransaction\<close> with \<open>requirePrimaryLease\<close> true that gets to its
  transaction (no persistence error is latched, the connection takes transactions): if
  \<open>canActAsPrimary\<close> is false in the transaction, the call sets \<open>isPrimary\<close> to false,
  enqueues \<open>primaryStateListener(false)\<close> and fails with \<open>PRIMARY_LEASE_LOST\<close>, the world
  untouched and the body not run. If it is true, the body runs, and when it returns a
  result the lease is then written as \<open>ownerId\<close> the local client,
  \<open>allowTabSynchronization\<close> the local setting and \<open>leaseTimestampMs\<close> the time at which
  the body ended; when the body fails, its error propagates and the stores are rolled
  back.
\<close>

theorem require_primary_transaction:
  assumes "transactionsRun l" and "this_persistenceError l = None"
  shows "(canActAsPrimary l w = Inr False \<longrightarrow>
            runTransaction l w action True transactionOperation =
              (Inl PRIMARY_LEASE_LOST,
               l\<lparr>this_isPrimary := False,
                 this_queue := this_queue l @ [NotifyPrimaryState False]\<rparr>,
               w)) \<and>
         (canActAsPrimary l w = Inr True \<longrightarrow>
            (\<forall>result w'. transactionOperation w = (Inr result, w') \<longrightarrow>
               runTransaction l w action True transactionOperation =
                 (Inr result, l,
                  w'\<lparr>db := (db w')\<lparr>primaryClient :=
                     Some \<lparr>ownerId = this_clientId l,
                           allowTabSynchronization = this_allowTabSynchronization l,
                           leaseTimestampMs = now w'\<rparr>\<rparr>\<rparr>)) \<and>
            (\<forall>e w'. transactionOperation w = (Inl e, w') \<longrightarrow>
               runTransaction l w action True transactionOperation =
                 (Inl e, l, w'\<lparr>db := db w\<rparr>)))"
  by (simp add: runTransaction_primary [OF assms] acquireOrExtendPrimaryLease_def)

text \<open>
  Tab \<open>A\<close> holds the lease: a body that ends at time 12000 leaves the lease stamped
  12000. When \<open>B\<close> holds a shared lease instead, the same call fails with
  \<open>PRIMARY_LEASE_LOST\<close>.
\<close>

theorem require_primary_transaction_witness:
  "transactionsRun tabA \<and> this_persistenceError tabA = None \<and>
   canActAsPrimary tabA world0 = Inr True \<and>
   runTransaction tabA world0 ''write'' True (\<lambda>txn. (Inr (7::nat), txn\<lparr>now := 12000\<rparr>)) =
     (Inr 7, tabA,
      world0\<lparr>now := 12000, db := sharedDb\<lparr>primaryClient :=
         Some \<lparr>ownerId = ''A'', allowTabSynchronization = True, leaseTimestampMs = 12000\<rparr>\<rparr>\<rparr>) \<and>
   canActAsPrimary tabA (world0\<lparr>db := sharedDb\<lparr>primaryClient :=
       Some (leaseOfB\<lparr>allowTabSynchronization := True\<rparr>)\<rparr>\<rparr>) = Inr False \<and>
   runTransaction tabA (world0\<lparr>db := sharedDb\<lparr>primaryClient :=
       Some (leaseOfB\<lparr>allowTabSynchronization := True\<rparr>)\<rparr>\<rparr>)
     ''write'' True (\<lambda>txn. (Inr (7::nat), txn\<lparr>now := 12000\<rparr>)) =
     (Inl PRIMARY_LEASE_LOST,
      tabA\<lparr>this_isPrimary := False, this_queue := [NotifyPrimaryState False]\<rparr>,
      world0\<lparr>db := sharedDb\<lparr>primaryClient :=
         Some (leaseOfB\<lparr>allowTabSynchronization := True\<rparr>)\<rparr>\<rparr>)"
proof -
  let ?w = "world0\<lparr>db := sharedDb\<lparr>primaryClient :=
       Some (leaseOfB\<lparr>allowTabSynchronization := True\<rparr>)\<rparr>\<rparr>"
  let ?body = "\<lambda>txn::World. (Inr (7::nat) :: error + nat, txn\<lparr>now := 12000\<rparr>)"
  have e: "this_persistenceError tabA = None"
    by (simp add: tabA_def)
  have pc: "primaryClient (db world0) = Some leaseOfA"
    by (simp add: world0_def sharedDb_def)
  have c: "canActAsPrimary tabA world0 = Inr True"
  proof (rule canActAsPrimary_own_lease_online)
    show "currentLeaseIsValid tabA world0 (primaryClient (db world0)) = Inr True"
      unfolding pc
      by (rule lease_written_9000_valid) (simp_all add: tabA_def world0_def leaseOfA_def)
    show "isLocalClient tabA (primaryClient (db world0))"
      unfolding pc by (simp add: isLocalClient_def leaseOfA_def tabA_def)
    show "this_networkEnabled tabA" by (simp add: tabA_def)
  qed
  have c': "canActAsPrimary tabA ?w = Inr False"
  proof (rule canActAsPrimary_shared_lease_of_other)
    show "primaryClient (db ?w) = Some (leaseOfB\<lparr>allowTabSynchronization := True\<rparr>)" by simp
    show "currentLeaseIsValid tabA ?w (Some (leaseOfB\<lparr>allowTabSynchronization := True\<rparr>)) = Inr True"
      by (rule lease_written_9000_valid) (simp_all add: tabA_def world0_def leaseOfB_def)
    show "ownerId (leaseOfB\<lparr>allowTabSynchronization := True\<rparr>) \<noteq> this_clientId tabA"
      by (simp add: leaseOfB_def tabA_def)
    show "allowTabSynchronization (leaseOfB\<lparr>allowTabSynchronization := True\<rparr>)" by simp
  qed
  have r: "runTransaction tabA world0 ''write'' True ?body =
     (Inr 7, tabA,
      world0\<lparr>now := 12000, db := sharedDb\<lparr>primaryClient :=
         Some \<lparr>ownerId = ''A'', allowTabSynchronization = True, leaseTimestampMs = 12000\<rparr>\<rparr>\<rparr>)"
    using require_primary_transaction [OF tabA_transactionsRun e, of world0 "''write''" ?body] c
    by simp (simp add: tabA_def world0_def)
  have r': "runTransaction tabA ?w ''write'' True ?body =
     (Inl PRIMARY_LEASE_LOST,
      tabA\<lparr>this_isPrimary := False, this_queue := [NotifyPrimaryState False]\<rparr>, ?w)"
    using require_primary_transaction [OF tabA_transactionsRun e, of ?w "''write''" ?body] c'
    by simp (simp add: tabA_def)
  from tabA_transactionsRun e c r c' r' show ?thesis by simp
qed

subsection \<open>Garbage collection\<close>

lemma fold_clientMetadata_delete:
  "fold (\<lambda>inactiveClient. clientMetadata_delete (clientId inactiveClient)) xs ys =
     filter (\<lambda>c. clientId c \<notin> clientId ` set xs) ys"
  by (induction xs arbitrary: ys) (auto simp: clientMetadata_delete_def intro: filter_cong)

lemma delete_inactive_keeps_active:
  assumes "distinct (map clientId cs)"
  shows "fold (\<lambda>inactiveClient. clientMetadata_delete (clientId inactiveClient))
           (filter (\<lambda>c. \<not> A c) cs) cs = filter A cs"
proof -
  have inj: "inj_on clientId (set cs)"
    using assms by (simp add: distinct_map)
  have "(clientId c \<notin> clientId ` set (filter (\<lambda>c. \<not> A c) cs)) = A c" if "c \<in> set cs" for c
    using that inj by (auto dest: inj_onD)
  then show ?thesis
    by (simp add: fold_clientMetadata_delete cong: filter_cong)
qed

lemma inactive_clients:
  "filter (\<lambda>client. client \<in> set cs \<longrightarrow> \<not> A client) cs = filter (\<lambda>c. \<not> A c) cs"
  by (rule filter_cong) auto

lemma Math_min_Min: "Math_min m xs = Min (set (m # xs))"
proof (induction xs arbitrary: m)
  case Nil
  show ?case by simp
next
  case (Cons x xs)
  have "Min (insert (min m x) (set xs)) = Min (insert m (insert x (set xs)))"
    by (cases "set xs = {}") (simp_all add: min.assoc)
  with Cons show ?case by simp
qed

lemma oldestChangeId_Min:
  "oldestChangeId l activeClients =
     (if filter (\<lambda>c. clientId c \<noteq> this_clientId l) activeClients = [] then None
      else Some (Min ((\<lambda>c. orZero (lastProcessedDocumentChangeId c)) `
                   set (filter (\<lambda>c. clientId c \<noteq> this_clientId l) activeClients))))"
proof (cases "filter (\<lambda>c. clientId c \<noteq> this_clientId l) activeClients")
  case Nil
  then show ?thesis by (simp add: oldestChangeId_def)
next
  case (Cons p ps)
  then show ?thesis
    by (simp add: oldestChangeId_def Math_min_Min del: filter.simps filter_eq_Cons_iff)
qed

lemma garbageCollectTransaction_supported:
  assumes "zombieCheckSupported l w" and "distinct (map clientId (clientMetadata (db w)))"
  shows "garbageCollectTransaction l w =
     (Inr (filter (\<lambda>c. \<not> activeClient l w CLIENT_STATE_GARBAGE_COLLECTION_THRESHOLD_MS c)
             (clientMetadata (db w))),
      case oldestChangeId l
             (filter (activeClient l w CLIENT_STATE_GARBAGE_COLLECTION_THRESHOLD_MS)
                (clientMetadata (db w))) of
        None \<Rightarrow>
          w\<lparr>db := (db w)\<lparr>clientMetadata :=
             filter (activeClient l w CLIENT_STATE_GARBAGE_COLLECTION_THRESHOLD_MS)
               (clientMetadata (db w))\<rparr>\<rparr>
      | Some oldest \<Rightarrow>
          removeDocumentChangesThroughChangeId oldest
            (w\<lparr>db := (db w)\<lparr>clientMetadata :=
               filter (activeClient l w CLIENT_STATE_GARBAGE_COLLECTION_THRESHOLD_MS)
                 (clientMetadata (db w))\<rparr>\<rparr>))"
  by (simp add: garbageCollectTransaction_def Let_def filterActiveClients_supported [OF assms(1)]
        inactive_clients delete_inactive_keeps_active [OF assms(2)] split: option.splits)

lemma canActAsPrimary_same_instance:
  assumes "this_persistenceKey l' = this_persistenceKey l" "this_platform l' = this_platform l"
    "this_clientId l' = this_clientId l" "this_networkEnabled l' = this_networkEnabled l"
    "this_inForeground l' = this_inForeground l"
  shows "canActAsPrimary l' w = canActAsPrimary l w"
proof -
  have z: "isClientZombied l' w cid = isClientZombied l w cid" for cid
    by (rule isClientZombied_same_instance [OF assms(1,2)])
  have f: "filterActiveClients l' w cs t = filterActiveClients l w cs t" for cs t
    by (induction cs) (simp_all add: z split: sum.splits)
  have p: "preferredCandidate l' = preferredCandidate l"
    by (rule ext) (simp add: preferredCandidate_def assms)
  have i: "isLocalClient l' c = isLocalClient l c" for c
    by (cases c) (simp_all add: isLocalClient_def assms)
  show ?thesis
    unfolding canActAsPrimary_def currentLeaseIsValid_same_instance [OF assms(1,2)] f p i
      assms(4,5)
    by (rule refl)
qed

text \<open>
  A pass that is due, on an instance that is primary and still eligible, runs
  \<open>garbageCollectTransaction\<close> on the world as it is, extends the lease and then removes
  the zombie markers of the clients it deleted.
\<close>

lemma gc_pass_runs_transaction:
  assumes "this_isPrimary l"
    and "this_lastGarbageCollectionTime l = None \<or>
         (\<exists>t. this_lastGarbageCollectionTime l = Some t \<and>
              \<not> isWithinAge w t CLIENT_STATE_GARBAGE_COLLECTION_THRESHOLD_MS)"
    and "transactionsRun l" and "this_persistenceError l = None"
    and "canActAsPrimary l w = Inr True"
    and "l1 = l\<lparr>this_lastGarbageCollectionTime := Some (now w)\<rparr>"
  shows "maybeGarbageCollectMultiClientState l w =
     (case garbageCollectTransaction l1 w of
        (Inl e, w') \<Rightarrow> (Inl e, l1, w'\<lparr>db := db w\<rparr>)
      | (Inr inactiveClients, w') \<Rightarrow>
          (case removeZombiedClientEntries l1 inactiveClients
                  (acquireOrExtendPrimaryLease l1 w') of
             Inl e \<Rightarrow> (Inl e, l1, acquireOrExtendPrimaryLease l1 w')
           | Inr w3 \<Rightarrow> (Inr (), l1, w3)))"
proof -
  have t: "transactionsRun l1" and e: "this_persistenceError l1 = None"
    using assms(3,4) by (simp_all add: assms(6) transactionsRun_def split: option.splits SimpleDb.splits)
  have c: "canActAsPrimary l1 w = Inr True"
  proof -
    have "canActAsPrimary l1 w = canActAsPrimary l w"
      by (rule canActAsPrimary_same_instance) (simp_all add: assms(6))
    with assms(5) show ?thesis by simp
  qed
  have d: "this_isPrimary l \<and>
         \<not> (case this_lastGarbageCollectionTime l of
              None \<Rightarrow> False
            | Some t \<Rightarrow> isWithinAge w t CLIENT_STATE_GARBAGE_COLLECTION_THRESHOLD_MS)"
    using assms(1,2) by auto
  show ?thesis
    unfolding maybeGarbageCollectMultiClientState_def Let_def assms(6) [symmetric]
    using d by (simp add: runTransaction_primary [OF t e] c split: prod.splits sum.splits)
qed

lemma gc_threshold: "CLIENT_STATE_GARBAGE_COLLECTION_THRESHOLD_MS = 1800000"
  by (simp add: CLIENT_STATE_GARBAGE_COLLECTION_THRESHOLD_MS_def)

text \<open>
  C7, as the code has it. Where the zombie check is supported and the \<open>clientMetadata\<close>
  store holds one record per \<open>clientId\<close>, the transaction of a garbage-collection pass
  deletes the records of the clients that are not active (metadata within 30 minutes,
  not marked as zombied), and the id it hands to the document change log is the minimum
  cursor (the \<open>lastProcessedDocumentChangeId\<close>, a missing one counting as 0) over the
  active clients other than the local one; with no such client nothing is truncated. So
  the truncation point exceeds the cursor of no active client other than the local
  client. The local client's own cursor is left out of the minimum.
\<close>

theorem gc_truncation_point:
  assumes "zombieCheckSupported l w"
    and "distinct (map clientId (clientMetadata (db w)))"
    and "active = filter (activeClient l w 1800000) (clientMetadata (db w))"
    and "peers = filter (\<lambda>c. clientId c \<noteq> this_clientId l) active"
    and "kept = w\<lparr>db := (db w)\<lparr>clientMetadata := active\<rparr>\<rparr>"
  shows "garbageCollectTransaction l w =
           (Inr (filter (\<lambda>c. \<not> activeClient l w 1800000 c) (clientMetadata (db w))),
            if peers = [] then kept
            else removeDocumentChangesThroughChangeId (Min (cursorOf ` set peers)) kept) \<and>
         oldestChangeId l active =
           (if peers = [] then None else Some (Min (cursorOf ` set peers))) \<and>
         (\<forall>P\<in>set peers. Min (cursorOf ` set peers) \<le> cursorOf P)"
proof -
  have c: "(\<lambda>c. orZero (lastProcessedDocumentChangeId c)) = cursorOf"
    by (rule ext) (simp add: orZero_def cursorOf_def)
  have o: "oldestChangeId l active =
           (if peers = [] then None else Some (Min (cursorOf ` set peers)))"
    unfolding assms(4) c [symmetric] by (rule oldestChangeId_Min)
  have g: "garbageCollectTransaction l w =
           (Inr (filter (\<lambda>c. \<not> activeClient l w 1800000 c) (clientMetadata (db w))),
            case oldestChangeId l active of None \<Rightarrow> kept
            | Some oldest \<Rightarrow> removeDocumentChangesThroughChangeId oldest kept)"
    unfolding assms(3,5)
    by (rule garbageCollectTransaction_supported [OF assms(1,2), unfolded gc_threshold])
  have m: "\<forall>P\<in>set peers. Min (cursorOf ` set peers) \<le> cursorOf P"
    by simp
  from g o m show ?thesis by simp
qed

text \<open>
  Tab \<open>A\<close> collects. With \<open>B\<close> marked as zombied, \<open>C\<close> last written more than 30 minutes
  ago and \<open>D\<close> at cursor 3, the records of \<open>B\<close> and \<open>C\<close> are deleted and the log is
  truncated through 3: the cursors of \<open>B\<close> and \<open>C\<close> play no part. With \<open>B\<close> at cursor 5
  and \<open>D\<close> without a cursor, the log is truncated through 0.
\<close>

theorem gc_truncation_point_witness:
  "zombieCheckSupported tabA
     (world0\<lparr>db := sharedDb\<lparr>clientMetadata := [metadataOfA, metadataOfB,
        \<lparr>clientId = ''C'', updateTimeMs = - 2000000, networkEnabled = True,
         inForeground = True, lastProcessedDocumentChangeId = Some 2\<rparr>,
        metadataOfB\<lparr>clientId := ''D'', lastProcessedDocumentChangeId := Some 3\<rparr>]\<rparr>,
        localStorage := markerOfB\<rparr>) \<and>
   garbageCollectTransaction tabA
     (world0\<lparr>db := sharedDb\<lparr>clientMetadata := [metadataOfA, metadataOfB,
        \<lparr>clientId = ''C'', updateTimeMs = - 2000000, networkEnabled = True,
         inForeground = True, lastProcessedDocumentChangeId = Some 2\<rparr>,
        metadataOfB\<lparr>clientId := ''D'', lastProcessedDocumentChangeId := Some 3\<rparr>]\<rparr>,
        localStorage := markerOfB\<rparr>) =
     (Inr [metadataOfB,
           \<lparr>clientId = ''C'', updateTimeMs = - 2000000, networkEnabled = True,
            inForeground = True, lastProcessedDocumentChangeId = Some 2\<rparr>],
      world0\<lparr>db := sharedDb\<lparr>clientMetadata :=
                 [metadataOfA,
                  metadataOfB\<lparr>clientId := ''D'', lastProcessedDocumentChangeId := Some 3\<rparr>],
               remoteDocumentChangeLog := [4, 5, 6]\<rparr>,
             localStorage := markerOfB\<rparr>) \<and>
   garbageCollectTransaction tabA
     (world0\<lparr>db := sharedDb\<lparr>clientMetadata := [metadataOfA, metadataOfB,
        metadataOfB\<lparr>clientId := ''D'', lastProcessedDocumentChangeId := None\<rparr>],
        remoteDocumentChangeLog := [0, 1, 2]\<rparr>\<rparr>) =
     (Inr [],
      world0\<lparr>db := sharedDb\<lparr>clientMetadata := [metadataOfA, metadataOfB,
        metadataOfB\<lparr>clientId := ''D'', lastProcessedDocumentChangeId := None\<rparr>],
        remoteDocumentChangeLog := [1, 2]\<rparr>\<rparr>) \<and>
   oldestChangeId tabA [metadataOfA, metadataOfB,
        metadataOfB\<lparr>clientId := ''D'', lastProcessedDocumentChangeId := None\<rparr>] = Some 0 \<and>
   isClientZombied tabA (world0\<lparr>localStorage := markerOfB\<rparr>) ''B'' = Inr (Some True) \<and>
   orZero (lastProcessedDocumentChangeId
        (metadataOfB\<lparr>clientId := ''D'', lastProcessedDocumentChangeId := None\<rparr>)) = 0"
proof -
  have z: "isClientZombied tabA (world0\<lparr>localStorage := markerOfB\<rparr>) ''B'' = Inr (Some True)"
    by (simp add: code_defs scenario_defs markerOfB_def ZOMBIED_CLIENTS_KEY_PREFIX_def)
  have n: "orZero (lastProcessedDocumentChangeId
        (metadataOfB\<lparr>clientId := ''D'', lastProcessedDocumentChangeId := None\<rparr>)) = 0"
    by (simp add: orZero_def)
  let ?C = "\<lparr>clientId = ''C'', updateTimeMs = - 2000000, networkEnabled = True,
         inForeground = True, lastProcessedDocumentChangeId = Some 2\<rparr>"
  let ?D3 = "metadataOfB\<lparr>clientId := ''D'', lastProcessedDocumentChangeId := Some 3\<rparr>"
  let ?D0 = "metadataOfB\<lparr>clientId := ''D'', lastProcessedDocumentChangeId := None\<rparr>"
  let ?w = "world0\<lparr>db := sharedDb\<lparr>clientMetadata := [metadataOfA, metadataOfB, ?C, ?D3]\<rparr>,
        localStorage := markerOfB\<rparr>"
  let ?v = "world0\<lparr>db := sharedDb\<lparr>clientMetadata := [metadataOfA, metadataOfB, ?D0],
        remoteDocumentChangeLog := [0, 1, 2]\<rparr>\<rparr>"
  have s: "zombieCheckSupported tabA ?w" and s': "zombieCheckSupported tabA ?v"
    by (simp_all add: notion_defs scenario_defs)
  have d: "distinct (map clientId (clientMetadata (db ?w)))"
    and d': "distinct (map clientId (clientMetadata (db ?v)))"
    by (simp_all add: scenario_defs)
  have a: "filter (activeClient tabA ?w 1800000) (clientMetadata (db ?w)) = [metadataOfA, ?D3]"
    by (simp add: notion_defs scenario_defs)
  have i: "filter (\<lambda>c. \<not> activeClient tabA ?w 1800000 c) (clientMetadata (db ?w)) =
             [metadataOfB, ?C]"
    by (simp add: notion_defs scenario_defs)
  have p: "filter (\<lambda>c. clientId c \<noteq> this_clientId tabA) [metadataOfA, ?D3] = [?D3]"
    by (simp add: scenario_defs)
  have a': "filter (activeClient tabA ?v 1800000) (clientMetadata (db ?v)) =
              [metadataOfA, metadataOfB, ?D0]"
    by (simp add: notion_defs scenario_defs)
  have i': "filter (\<lambda>c. \<not> activeClient tabA ?v 1800000 c) (clientMetadata (db ?v)) = []"
    by (simp add: notion_defs scenario_defs)
  have p': "filter (\<lambda>c. clientId c \<noteq> this_clientId tabA) [metadataOfA, metadataOfB, ?D0] =
              [metadataOfB, ?D0]"
    by (simp add: scenario_defs)
  note t = gc_truncation_point [OF s d a [symmetric] p [symmetric] refl, unfolded i]
  note t' = gc_truncation_point [OF s' d' a' [symmetric] p' [symmetric] refl, unfolded i']
  have g: "garbageCollectTransaction tabA ?w =
     (Inr [metadataOfB, ?C],
      world0\<lparr>db := sharedDb\<lparr>clientMetadata := [metadataOfA, ?D3],
               remoteDocumentChangeLog := [4, 5, 6]\<rparr>,
             localStorage := markerOfB\<rparr>)"
    using t by (simp add: removeDocumentChangesThroughChangeId_def cursorOf_def scenario_defs)
  have g': "garbageCollectTransaction tabA ?v =
     (Inr [],
      world0\<lparr>db := sharedDb\<lparr>clientMetadata := [metadataOfA, metadataOfB, ?D0],
        remoteDocumentChangeLog := [1, 2]\<rparr>\<rparr>)"
    using t' by (simp add: removeDocumentChangesThroughChangeId_def cursorOf_def scenario_defs)
  have o': "oldestChangeId tabA [metadataOfA, metadataOfB, ?D0] = Some 0"
    using t' by (simp add: cursorOf_def scenario_defs)
  from s g g' o' z n show ?thesis by simp
qed

text \<open>
  C7 as stated fails for the local client: \<open>A\<close> and \<open>B\<close> are both active when the
  collection starts, the cursor of \<open>A\<close> is 1, and the log is truncated through 5.
\<close>

theorem gc_truncation_beyond_local_cursor_counterexample:
  "activeClient tabA world0 1800000 metadataOfA \<and>
   cursorOf metadataOfA = 1 \<and>
   filterActiveClients tabA world0 (clientMetadata (db world0))
      CLIENT_STATE_GARBAGE_COLLECTION_THRESHOLD_MS = Inr [metadataOfA, metadataOfB] \<and>
   lastProcessedDocumentChangeId metadataOfA = Some 1 \<and>
   oldestChangeId tabA [metadataOfA, metadataOfB] = Some 5 \<and>
   garbageCollectTransaction tabA world0 =
     (Inr [], world0\<lparr>db := sharedDb\<lparr>remoteDocumentChangeLog := [6]\<rparr>\<rparr>)"
  by (simp add: notion_defs code_defs scenario_defs)

subsection \<open>The refresher\<close>

lemma update_keeps_refresher:
  "this_clientMetadataRefresher (fst (snd (updateClientMetadataAndTryBecomePrimary l w))) =
     this_clientMetadataRefresher l"
  by (simp add: updateClientMetadataAndTryBecomePrimary_def simpleDb_runTransaction_def Let_def
        releasePrimaryLeaseIfHeld_def
      split: option.splits SimpleDb.splits sum.splits prod.splits)

lemma runTransaction_keeps_refresher:
  "this_clientMetadataRefresher (fst (snd (runTransaction l w action required body))) =
     this_clientMetadataRefresher l"
  by (simp add: runTransaction_def simpleDb_runTransaction_def Let_def
      split: option.splits SimpleDb.splits sum.splits prod.splits)

lemma gc_keeps_refresher:
  "this_clientMetadataRefresher (fst (snd (maybeGarbageCollectMultiClientState l w))) =
     this_clientMetadataRefresher l"
proof -
  have "this_clientMetadataRefresher (fst (snd (runTransaction
           (l\<lparr>this_lastGarbageCollectionTime := Some (now w)\<rparr>) w ''readwrite'' True
           (garbageCollectTransaction (l\<lparr>this_lastGarbageCollectionTime := Some (now w)\<rparr>))))) =
        this_clientMetadataRefresher l"
    by (simp add: runTransaction_keeps_refresher)
  then show ?thesis
    by (auto simp: maybeGarbageCollectMultiClientState_def Let_def
        split: sum.splits prod.splits)
qed

text \<open>
  C6, as the code has it. A run of the refresher marks its handle as started, updates
  the metadata and then collects garbage. When the update fails, its error is not
  caught: it is the result of the run, and the handle stays the one of the run that
  started, so that no further run is scheduled. When the update succeeds and the garbage
  collection fails, the same holds of that error. Only when both succeed is the next run
  scheduled, 4000 ms later.
\<close>

theorem refresher_reschedules_after_success_only:
  "(\<forall>e l1 w1.
      updateClientMetadataAndTryBecomePrimary
        (l\<lparr>this_clientMetadataRefresher := Some Started\<rparr>) w = (Inl e, l1, w1) \<longrightarrow>
      clientMetadataRefresh l w = (Inl e, l1, w1) \<and>
      this_clientMetadataRefresher l1 = Some Started) \<and>
   (\<forall>l1 w1 e l2 w2.
      updateClientMetadataAndTryBecomePrimary
        (l\<lparr>this_clientMetadataRefresher := Some Started\<rparr>) w = (Inr (), l1, w1) \<and>
      maybeGarbageCollectMultiClientState l1 w1 = (Inl e, l2, w2) \<longrightarrow>
      clientMetadataRefresh l w = (Inl e, l2, w2) \<and>
      this_clientMetadataRefresher l2 = Some Started) \<and>
   (\<forall>l1 w1 l2 w2.
      updateClientMetadataAndTryBecomePrimary
        (l\<lparr>this_clientMetadataRefresher := Some Started\<rparr>) w = (Inr (), l1, w1) \<and>
      maybeGarbageCollectMultiClientState l1 w1 = (Inr (), l2, w2) \<longrightarrow>
      clientMetadataRefresh l w =
        (Inr (), l2\<lparr>this_clientMetadataRefresher := Some (Pending 4000)\<rparr>, w2))"
proof -
  let ?l0 = "l\<lparr>this_clientMetadataRefresher := Some Started\<rparr>"
  have a: "clientMetadataRefresh l w = (Inl e, l1, w1) \<and>
           this_clientMetadataRefresher l1 = Some Started"
    if "updateClientMetadataAndTryBecomePrimary ?l0 w = (Inl e, l1, w1)" for e l1 w1
    using that update_keeps_refresher [of ?l0 w]
    by (simp add: clientMetadataRefresh_def)
  have b: "clientMetadataRefresh l w = (Inl e, l2, w2) \<and>
           this_clientMetadataRefresher l2 = Some Started"
    if "updateClientMetadataAndTryBecomePrimary ?l0 w = (Inr (), l1, w1)"
      and "maybeGarbageCollectMultiClientState l1 w1 = (Inl e, l2, w2)" for l1 w1 e l2 w2
    using that update_keeps_refresher [of ?l0 w] gc_keeps_refresher [of l1 w1]
    by (simp add: clientMetadataRefresh_def)
  have c: "clientMetadataRefresh l w =
        (Inr (), l2\<lparr>this_clientMetadataRefresher := Some (Pending 4000)\<rparr>, w2)"
    if "updateClientMetadataAndTryBecomePrimary ?l0 w = (Inr (), l1, w1)"
      and "maybeGarbageCollectMultiClientState l1 w1 = (Inr (), l2, w2)" for l1 w1 l2 w2
    using that
    by (simp add: clientMetadataRefresh_def scheduleClientMetadataAndPrimaryLeaseRefreshes_def
          CLIENT_METADATA_REFRESH_INTERVAL_MS_def)
  from a b c show ?thesis by blast
qed

text \<open>
  Tab \<open>A\<close> refreshes. When \<open>B\<close> holds the lease for itself alone the update fails with
  \<open>PRIMARY_LEASE_EXCLUSIVE\<close>. When LocalStorage rejects every access and the stale
  record of \<open>C\<close> is to be collected, the update succeeds and the collection fails on
  removing the marker of \<open>C\<close>. In both cases the handle stays started. As holder of the
  lease in the plain world, \<open>A\<close> updates its metadata, extends the lease, collects (the
  log is truncated through the cursor of \<open>B\<close>) and is scheduled again after 4000 ms.
\<close>

theorem refresher_reschedules_after_success_only_witness:
  "clientMetadataRefresh tabA (world0\<lparr>db := sharedDb\<lparr>primaryClient := Some leaseOfB\<rparr>\<rparr>) =
     (Inl PRIMARY_LEASE_EXCLUSIVE,
      tabA\<lparr>this_clientMetadataRefresher := Some Started\<rparr>,
      world0\<lparr>db := sharedDb\<lparr>primaryClient := Some leaseOfB\<rparr>\<rparr>) \<and>
   fst (clientMetadataRefresh tabA
          (world0\<lparr>db := sharedDb\<lparr>clientMetadata := [metadataOfA, metadataOfB,
              metadataOfB\<lparr>clientId := ''C'', updateTimeMs := - 2000000\<rparr>]\<rparr>,
            localStorage := StorageThrows\<rparr>)) = Inl StorageError \<and>
   this_clientMetadataRefresher (fst (snd (clientMetadataRefresh tabA
          (world0\<lparr>db := sharedDb\<lparr>clientMetadata := [metadataOfA, metadataOfB,
              metadataOfB\<lparr>clientId := ''C'', updateTimeMs := - 2000000\<rparr>]\<rparr>,
            localStorage := StorageThrows\<rparr>)))) = Some Started \<and>
   fst (clientMetadataRefresh tabA world0) = Inr () \<and>
   this_clientMetadataRefresher (fst (snd (clientMetadataRefresh tabA world0))) =
     Some (Pending 4000) \<and>
   db (snd (snd (clientMetadataRefresh tabA world0))) =
     \<lparr>primaryClient = Some (leaseOfA\<lparr>leaseTimestampMs := 10000\<rparr>),
      clientMetadata = [metadataOfA\<lparr>updateTimeMs := 10000\<rparr>, metadataOfB],
      remoteDocumentChangeLog = [6]\<rparr>"
proof -
  let ?l0 = "tabA\<lparr>this_clientMetadataRefresher := Some Started\<rparr>"
  let ?wB = "world0\<lparr>db := sharedDb\<lparr>primaryClient := Some leaseOfB\<rparr>\<rparr>"
  let ?wT = "world0\<lparr>db := sharedDb\<lparr>clientMetadata := [metadataOfA, metadataOfB,
              metadataOfB\<lparr>clientId := ''C'', updateTimeMs := - 2000000\<rparr>]\<rparr>,
            localStorage := StorageThrows\<rparr>"
  let ?U = "updateClientMetadataAndTryBecomePrimary ?l0"
  note t = refresher_reschedules_after_success_only
  \<comment> \<open>the update fails\<close>
  have uB: "?U ?wB = (Inl PRIMARY_LEASE_EXCLUSIVE, ?l0, ?wB)"
    by (simp add: code_defs scenario_defs)
  have rB: "clientMetadataRefresh tabA ?wB = (Inl PRIMARY_LEASE_EXCLUSIVE, ?l0, ?wB)"
    using t [of tabA ?wB, THEN conjunct1, rule_format, OF uB] by (rule conjunct1)
  \<comment> \<open>the update succeeds and the collection fails\<close>
  have "fst (?U ?wT) = Inr ()"
    by (simp add: code_defs scenario_defs)
  then have uT: "?U ?wT = (Inr (), fst (snd (?U ?wT)), snd (snd (?U ?wT)))"
    by (simp add: prod_eq_iff)
  let ?G = "maybeGarbageCollectMultiClientState (fst (snd (?U ?wT))) (snd (snd (?U ?wT)))"
  have "fst ?G = Inl StorageError"
    by (simp add: code_defs scenario_defs)
  then have gT: "?G = (Inl StorageError, fst (snd ?G), snd (snd ?G))"
    by (simp add: prod_eq_iff)
  note rT = t [of tabA ?wT, THEN conjunct2, THEN conjunct1, rule_format, OF conjI, OF uT gT]
  have rT1: "fst (clientMetadataRefresh tabA ?wT) = Inl StorageError"
    using rT [THEN conjunct1] by simp
  have rT2: "this_clientMetadataRefresher (fst (snd (clientMetadataRefresh tabA ?wT))) =
               Some Started"
    using rT by simp
  \<comment> \<open>both succeed\<close>
  have "fst (?U world0) = Inr ()"
    by (simp add: code_defs scenario_defs)
  then have u0: "?U world0 = (Inr (), fst (snd (?U world0)), snd (snd (?U world0)))"
    by (simp add: prod_eq_iff)
  let ?H = "maybeGarbageCollectMultiClientState (fst (snd (?U world0))) (snd (snd (?U world0)))"
  have "fst ?H = Inr ()"
    by (simp add: code_defs scenario_defs)
  then have g0: "?H = (Inr (), fst (snd ?H), snd (snd ?H))"
    by (simp add: prod_eq_iff)
  note r0 = t [of tabA world0, THEN conjunct2, THEN conjunct2, rule_format, OF conjI, OF u0 g0]
  have r01: "fst (clientMetadataRefresh tabA world0) = Inr ()"
    using r0 by simp
  have r02: "this_clientMetadataRefresher (fst (snd (clientMetadataRefresh tabA world0))) =
     Some (Pending 4000)"
    using r0 by simp
  have r03: "db (snd (snd (clientMetadataRefresh tabA world0))) =
     \<lparr>primaryClient = Some (leaseOfA\<lparr>leaseTimestampMs := 10000\<rparr>),
      clientMetadata = [metadataOfA\<lparr>updateTimeMs := 10000\<rparr>, metadataOfB],
      remoteDocumentChangeLog = [6]\<rparr>"
    by (simp add: code_defs scenario_defs)
  from rB rT1 rT2 r01 r02 r03 show ?thesis
    by (intro conjI)
qed

text \<open>
  C6 as stated fails: \<open>B\<close> holds the lease for itself alone, the run of the refresher of
  \<open>A\<close> fails with \<open>PRIMARY_LEASE_EXCLUSIVE\<close>, and no run is pending afterwards.
\<close>

theorem refresher_stops_on_error_counterexample:
  "clientMetadataRefresh tabA (world0\<lparr>db := sharedDb\<lparr>primaryClient := Some leaseOfB\<rparr>\<rparr>) =
     (Inl PRIMARY_LEASE_EXCLUSIVE,
      tabA\<lparr>this_clientMetadataRefresher := Some Started\<rparr>,
      world0\<lparr>db := sharedDb\<lparr>primaryClient := Some leaseOfB\<rparr>\<rparr>)"
  by (simp add: code_defs scenario_defs)

subsection \<open>Starting twice\<close>

lemma update_keeps_platform:
  "this_platform (fst (snd (updateClientMetadataAndTryBecomePrimary l w))) = this_platform l"
  by (simp add: updateClientMetadataAndTryBecomePrimary_def simpleDb_runTransaction_def Let_def
        releasePrimaryLeaseIfHeld_def
      split: option.splits SimpleDb.splits sum.splits prod.splits)

lemma startRemoteDocumentCache_keeps_platform:
  "this_platform (fst (snd (startRemoteDocumentCache l w))) = this_platform l"
  by (simp add: startRemoteDocumentCache_def simpleDb_runTransaction_def Let_def
      split: option.splits SimpleDb.splits sum.splits prod.splits)

lemma attach_keeps_platform:
  "this_platform (attachWindowUnloadHook (attachVisibilityHandler l w)) = this_platform l"
  by (simp add: attachWindowUnloadHook_def attachVisibilityHandler_def)

lemma start_succeeded:
  assumes "start l0 w0 = (Inr (), l1, w1)"
  shows "this_started l1 \<and> this_platform l1 = this_platform l0 \<and>
         simpleDbIsAvailable (this_platform l0) \<and> \<not> this_started l0"
proof -
  let ?la = "l0\<lparr>this_simpleDb := Some Open\<rparr>"
  obtain r2 l2 w2 where c: "startRemoteDocumentCache ?la w0 = (r2, l2, w2)"
    by (cases "startRemoteDocumentCache ?la w0") auto
  let ?l3 = "attachWindowUnloadHook (attachVisibilityHandler l2 w2)"
  obtain r4 l4 w4 where u: "updateClientMetadataAndTryBecomePrimary ?l3 w2 = (r4, l4, w4)"
    by (cases "updateClientMetadataAndTryBecomePrimary ?l3 w2") auto
  have p2: "this_platform l2 = this_platform l0"
    using startRemoteDocumentCache_keeps_platform [of ?la w0] c by simp
  have p4: "this_platform l4 = this_platform l0"
    using update_keeps_platform [of ?l3 w2] u p2 by (simp add: attach_keeps_platform)
  show ?thesis
    using assms c u p4
    by (auto simp: start_def Let_def scheduleClientMetadataAndPrimaryLeaseRefreshes_def
        split: if_splits option.splits sum.splits)
qed

lemma start_started:
  assumes "this_started l" and "simpleDbIsAvailable (this_platform l)"
  shows "start l w = (Inl (AssertionFailed ''IndexedDbPersistence double-started!''), l, w)"
  using assms by (simp add: start_def)

text \<open>
  C10. After a \<open>start\<close> that succeeded the instance is started, and a second \<open>start\<close> on
  it fails the assertion \<^verbatim>\<open>'IndexedDbPersistence double-started!'\<close> and changes nothing,
  whatever the world is by then; so does \<open>start\<close> on every started instance of the same
  platform. Unlike \<open>shutdown\<close>, \<open>start\<close> is not meant to be called twice.
\<close>

theorem start_twice_fails_assertion:
  assumes "start l0 w0 = (Inr (), l1, w1)"
  shows "this_started l1 \<and>
         start l1 w2 = (Inl (AssertionFailed ''IndexedDbPersistence double-started!''), l1, w2) \<and>
         (\<forall>l w. this_started l \<and> this_platform l = this_platform l1 \<longrightarrow>
            start l w = (Inl (AssertionFailed ''IndexedDbPersistence double-started!''), l, w))"
  using start_succeeded [OF assms] by (simp add: start_started)

text \<open>
  Tab \<open>A\<close> starts in the world where its lease from before a reload is still valid, and
  starts again.
\<close>

theorem start_twice_fails_assertion_witness:
  "fst (start newTabA world0) = Inr () \<and>
   this_started (fst (snd (start newTabA world0))) \<and>
   start (fst (snd (start newTabA world0))) (snd (snd (start newTabA world0))) =
     (Inl (AssertionFailed ''IndexedDbPersistence double-started!''),
      fst (snd (start newTabA world0)), snd (snd (start newTabA world0)))"
proof -
  let ?l2 = "newTabA\<lparr>this_simpleDb := Some Open, this_lastProcessedDocumentChangeId := Some 1\<rparr>"
  let ?l3 = "?l2\<lparr>this_documentVisibilityHandler := True, this_inForeground := True,
                this_windowUnloadHandler := True\<rparr>"
  have p: "simpleDbIsAvailable (this_platform newTabA)" "\<not> this_started newTabA"
    "windowDefined (this_platform newTabA)" "openOrCreateError world0 = None"
    by (simp_all add: newTabA_def browser_def world0_def)
  have r: "startRemoteDocumentCache (newTabA\<lparr>this_simpleDb := Some Open\<rparr>) world0 =
             (Inr (), ?l2, world0)"
    by (simp add: startRemoteDocumentCache_def simpleDb_runTransaction_def) (simp add: world0_def)
  have a: "attachWindowUnloadHook (attachVisibilityHandler ?l2 world0) = ?l3"
    by (simp add: attachWindowUnloadHook_def attachVisibilityHandler_def newTabA_def browser_def
          world0_def)
  have u: "fst (updateClientMetadataAndTryBecomePrimary ?l3 world0) = Inr ()"
    by (simp add: code_defs scenario_defs newTabA_def)
  have e: "fst (start newTabA world0) = Inr ()"
    using u
    by (cases "updateClientMetadataAndTryBecomePrimary ?l3 world0")
       (simp add: start_def p r a)
  then have "start newTabA world0 =
      (Inr (), fst (snd (start newTabA world0)), snd (snd (start newTabA world0)))"
    by (simp add: prod_eq_iff)
  note t = start_twice_fails_assertion [OF this, of "snd (snd (start newTabA world0))"]
  from t have c1: "this_started (fst (snd (start newTabA world0)))"
    by (rule conjunct1)
  from t have c2: "start (fst (snd (start newTabA world0))) (snd (snd (start newTabA world0))) =
     (Inl (AssertionFailed ''IndexedDbPersistence double-started!''),
      fst (snd (start newTabA world0)), snd (snd (start newTabA world0)))"
    by (rule conjunct2 [THEN conjunct1])
  from e c1 c2 show ?thesis
    by (intro conjI)
qed

subsection \<open>Shutdown\<close>

lemma shutdown_transaction:
  "(case releasePrimaryLeaseIfHeld l txn of
      (l', txn') \<Rightarrow> (Inr () :: error + unit, l', removeClientMetadata l' txn')) =
   (Inr (), l\<lparr>this_isPrimary := False\<rparr>,
    txn\<lparr>db := dbAfterShutdown l (db txn) False\<rparr>)"
  by (cases "primaryClient (db txn)")
     (simp_all add: releasePrimaryLeaseIfHeld_def Let_def removeClientMetadata_def
        dbAfterShutdown_def isLocalClient_def)

lemma zombie_marker_written_and_removed:
  assumes "this_persistenceKey l' = this_persistenceKey l" "this_clientId l' = this_clientId l"
    "this_platform l' = this_platform l"
  shows "removeClientZombiedEntry l' ((markClientZombied l w)\<lparr>db := d\<rparr>) =
           w\<lparr>db := d, localStorage := storageAfterShutdown l (localStorage w)\<rparr>"
  using assms
  by (cases "localStorage w")
     (simp_all add: removeClientZombiedEntry_def markClientZombied_def storageAfterShutdown_def
        zombiedClientLocalStorageKey_def)


text \<open>
  A \<open>shutdown\<close> whose transaction runs and whose handlers can be detached succeeds, and
  leaves the instance and the world in the states defined above.
\<close>

lemma shutdown_runs:
  assumes "transactionsRun l" and "detachable l"
  shows "shutdown l w deleteData =
           (Inr (), instanceAfterShutdown l, worldAfterShutdown l w deleteData)"
proof -
  let ?l1 = "l\<lparr>this_started := False\<rparr>"
  let ?l2 = "?l1\<lparr>this_clientMetadataRefresher := map_option cancel (this_clientMetadataRefresher l)\<rparr>"
  let ?l3 = "?l2\<lparr>this_documentVisibilityHandler := False\<rparr>"
  let ?l4 = "?l3\<lparr>this_windowUnloadHandler := False\<rparr>"
  let ?w1 = "markClientZombied l w"
  have r: "(case this_clientMetadataRefresher ?l1 of None \<Rightarrow> ?l1
           | Some h \<Rightarrow> ?l1\<lparr>this_clientMetadataRefresher := Some (cancel h)\<rparr>) = ?l2"
    by (cases "this_clientMetadataRefresher l") simp_all
  have d1: "detachVisibilityHandler ?l2 = Inr ?l3"
    using assms(2) by (auto simp: detachVisibilityHandler_def detachable_def)
  have d2: "detachWindowUnloadHook ?l3 = Inr ?l4"
    using assms(2) by (auto simp: detachWindowUnloadHook_def detachable_def)
  have t: "transactionsRun ?l4"
    using assms(1) by (simp add: transactionsRun_def split: option.splits SimpleDb.splits)
  have m: "markClientZombied ?l1 w = ?w1"
    by (simp add: markClientZombied_def zombiedClientLocalStorageKey_def split: LocalStorage.splits)
  have x: "simpleDb_runTransaction ?l4 ?w1 (\<lambda>l txn.
              case releasePrimaryLeaseIfHeld l txn of
                (l', txn') \<Rightarrow> (Inr (), l', removeClientMetadata l' txn')) =
           (Inr (), ?l4\<lparr>this_isPrimary := False\<rparr>,
            ?w1\<lparr>db := dbAfterShutdown ?l4 (db ?w1) False\<rparr>)"
    by (simp add: simpleDb_runTransaction_runs [OF t] shutdown_transaction)
  have dbw: "db ?w1 = db w"
    by (simp add: markClientZombied_def split: LocalStorage.splits)
  have "isLocalClient ?l4 c = isLocalClient l c" for c
    by (cases c) (simp_all add: isLocalClient_def)
  then have dbl: "dbAfterShutdown ?l4 d b = dbAfterShutdown l d b" for d b
    by (simp add: dbAfterShutdown_def)
  have z: "removeClientZombiedEntry (?l4\<lparr>this_isPrimary := False, this_simpleDb := Some Closed\<rparr>)
             (?w1\<lparr>db := dbAfterShutdown l (db w) False\<rparr>) =
           w\<lparr>db := dbAfterShutdown l (db w) False,
             localStorage := storageAfterShutdown l (localStorage w)\<rparr>"
    by (rule zombie_marker_written_and_removed) simp_all
  have i: "?l4\<lparr>this_isPrimary := False, this_simpleDb := Some Closed\<rparr> = instanceAfterShutdown l"
    by (simp add: instanceAfterShutdown_def)
  show ?thesis
    unfolding shutdown_def Let_def r m d1
    by (simp add: d2 x dbw dbl z)
       (simp add: i worldAfterShutdown_def SimpleDb_delete_def dbAfterShutdown_def)
qed


lemma cancel_cancel: "cancel (cancel h) = cancel h"
  by (cases h) (simp_all add: cancel_def)

lemma instanceAfterShutdown_twice:
  "instanceAfterShutdown (instanceAfterShutdown l) = instanceAfterShutdown l"
  by (cases "this_clientMetadataRefresher l")
     (simp_all add: instanceAfterShutdown_def cancel_cancel)

lemma dbAfterShutdown_twice:
  assumes "this_clientId l' = this_clientId l"
  shows "dbAfterShutdown l' (dbAfterShutdown l d deleteData) deleteData =
           dbAfterShutdown l d deleteData"
proof (cases "primaryClient d")
  case None
  then show ?thesis
    by (simp add: dbAfterShutdown_def isLocalClient_def clientMetadata_delete_def assms)
next
  case (Some p)
  then show ?thesis
    by (cases "ownerId p = this_clientId l")
       (simp_all add: dbAfterShutdown_def isLocalClient_def clientMetadata_delete_def assms)
qed

lemma storageAfterShutdown_twice:
  assumes "this_persistenceKey l' = this_persistenceKey l" "this_clientId l' = this_clientId l"
    "this_platform l' = this_platform l"
  shows "storageAfterShutdown l' (storageAfterShutdown l s) = storageAfterShutdown l s"
  using assms
  by (cases s) (simp_all add: storageAfterShutdown_def zombiedClientLocalStorageKey_def)

lemma worldAfterShutdown_twice:
  "worldAfterShutdown (instanceAfterShutdown l) (worldAfterShutdown l w deleteData) deleteData =
     worldAfterShutdown l w deleteData"
proof -
  have a: "dbAfterShutdown (instanceAfterShutdown l) (dbAfterShutdown l d deleteData) deleteData =
             dbAfterShutdown l d deleteData" for d
    by (rule dbAfterShutdown_twice) (simp add: instanceAfterShutdown_def)
  have b: "storageAfterShutdown (instanceAfterShutdown l) (storageAfterShutdown l s) =
             storageAfterShutdown l s" for s
    by (rule storageAfterShutdown_twice) (simp_all add: instanceAfterShutdown_def)
  show ?thesis
    by (simp add: worldAfterShutdown_def a b)
qed

text \<open>
  The second \<open>shutdown\<close> runs its transaction on the connection the first one closed.
  What \<^verbatim>\<open>SimpleDb\<close> does then is not in the sources. If it runs the transaction all the
  same, the second call succeeds and changes nothing. If it rejects, the second call
  fails after it has written the zombie marker again, and the marker stays.
\<close>

lemma shutdown_twice_lenient_store:
  assumes "transactionsRun l" and "detachable l" and "closedDbError (this_platform l) = None"
  shows "shutdown l w deleteData =
           (Inr (), instanceAfterShutdown l, worldAfterShutdown l w deleteData) \<and>
         shutdown (instanceAfterShutdown l) (worldAfterShutdown l w deleteData) deleteData =
           (Inr (), instanceAfterShutdown l, worldAfterShutdown l w deleteData)"
proof -
  have t: "transactionsRun (instanceAfterShutdown l)"
    using assms(3) by (simp add: transactionsRun_def instanceAfterShutdown_def)
  have d: "detachable (instanceAfterShutdown l)"
    by (simp add: detachable_def instanceAfterShutdown_def)
  show ?thesis
    using shutdown_runs [OF assms(1,2), of w deleteData]
      shutdown_runs [OF t d, of "worldAfterShutdown l w deleteData" deleteData]
    by (simp add: instanceAfterShutdown_twice worldAfterShutdown_twice)
qed

lemma shutdown_twice_rejecting_store:
  assumes "transactionsRun l" and "detachable l" and "closedDbError (this_platform l) = Some e"
  shows "shutdown l w deleteData =
           (Inr (), instanceAfterShutdown l, worldAfterShutdown l w deleteData) \<and>
         shutdown (instanceAfterShutdown l) (worldAfterShutdown l w deleteData) deleteData =
           (Inl e, instanceAfterShutdown l,
            markClientZombied l (worldAfterShutdown l w deleteData))"
proof -
  let ?l' = "instanceAfterShutdown l"
  let ?w' = "worldAfterShutdown l w deleteData"
  have r: "(case this_clientMetadataRefresher (?l'\<lparr>this_started := False\<rparr>) of
              None \<Rightarrow> ?l'\<lparr>this_started := False\<rparr>
            | Some h \<Rightarrow> ?l'\<lparr>this_started := False,
                           this_clientMetadataRefresher := Some (cancel h)\<rparr>) = ?l'"
    by (cases "this_clientMetadataRefresher l")
       (simp_all add: instanceAfterShutdown_def cancel_cancel)
  have d1: "detachVisibilityHandler ?l' = Inr ?l'"
    by (simp add: detachVisibilityHandler_def instanceAfterShutdown_def)
  have d2: "detachWindowUnloadHook ?l' = Inr ?l'"
    by (simp add: detachWindowUnloadHook_def instanceAfterShutdown_def)
  have m: "markClientZombied (?l'\<lparr>this_started := False\<rparr>) ?w' = markClientZombied l ?w'"
    by (simp add: markClientZombied_def zombiedClientLocalStorageKey_def instanceAfterShutdown_def
          split: LocalStorage.splits)
  have x: "simpleDb_runTransaction ?l' w'' f = (Inl e, ?l', w'')" for w'' and f :: "IndexedDbPersistence \<Rightarrow> World \<Rightarrow> (error + unit) \<times> IndexedDbPersistence \<times> World"
    using assms(3) by (simp add: simpleDb_runTransaction_def instanceAfterShutdown_def)
  have "shutdown ?l' ?w' deleteData = (Inl e, ?l', markClientZombied l ?w')"
    unfolding shutdown_def Let_def r m d1
    by (simp add: d2 x)
  with shutdown_runs [OF assms(1,2), of w deleteData] show ?thesis by simp
qed

text \<open>
  Without a connection (\<open>start\<close> never got to assign one) \<open>shutdown\<close> fails.
\<close>

lemma shutdown_without_connection:
  assumes "this_simpleDb l = None"
    and "\<not> this_documentVisibilityHandler l" and "\<not> this_windowUnloadHandler l"
  shows "fst (shutdown l w deleteData) = Inl TypeError"
  using assms
  by (simp add: shutdown_def Let_def detachVisibilityHandler_def detachWindowUnloadHook_def
        simpleDb_runTransaction_def split: option.splits)

text \<open>
  C9 does not hold of the code. On a platform without IndexedDB \<open>start\<close> aborts before it
  assigns \<open>this_simpleDb\<close>. \<open>shutdown\<close> on that instance writes the zombie marker, finds no
  refresher and no handlers, and then fails with a \<open>TypeError\<close> on
  \<^verbatim>\<open>this.simpleDb.runTransaction\<close>: the first call and the second, each leaving the
  marker behind. The comment in \<open>shutdown\<close> says it can be called even when \<open>start\<close>
  aborted.
\<close>

theorem shutdown_after_unsupported_start:
  "start (newTabA\<lparr>this_platform := browserWithoutIndexedDb\<rparr>) world0 =
     (Inl (FirestoreError UNIMPLEMENTED UNSUPPORTED_PLATFORM_ERROR_MSG),
      newTabA\<lparr>this_platform := browserWithoutIndexedDb,
        this_persistenceError := Some (FirestoreError UNIMPLEMENTED UNSUPPORTED_PLATFORM_ERROR_MSG)\<rparr>,
      world0) \<and>
   shutdown (newTabA\<lparr>this_platform := browserWithoutIndexedDb,
        this_persistenceError := Some (FirestoreError UNIMPLEMENTED UNSUPPORTED_PLATFORM_ERROR_MSG)\<rparr>)
      world0 False =
     (Inl TypeError,
      newTabA\<lparr>this_platform := browserWithoutIndexedDb,
        this_persistenceError := Some (FirestoreError UNIMPLEMENTED UNSUPPORTED_PLATFORM_ERROR_MSG)\<rparr>,
      world0\<lparr>localStorage := Storage [''firestore_zombie_app_A'' \<mapsto> String_int 10000]\<rparr>) \<and>
   shutdown (newTabA\<lparr>this_platform := browserWithoutIndexedDb,
        this_persistenceError := Some (FirestoreError UNIMPLEMENTED UNSUPPORTED_PLATFORM_ERROR_MSG)\<rparr>)
      (world0\<lparr>localStorage := Storage [''firestore_zombie_app_A'' \<mapsto> String_int 10000]\<rparr>) False =
     (Inl TypeError,
      newTabA\<lparr>this_platform := browserWithoutIndexedDb,
        this_persistenceError := Some (FirestoreError UNIMPLEMENTED UNSUPPORTED_PLATFORM_ERROR_MSG)\<rparr>,
      world0\<lparr>localStorage := Storage [''firestore_zombie_app_A'' \<mapsto> String_int 10000]\<rparr>)"
  by (simp add: start_def shutdown_def Let_def markClientZombied_def detachVisibilityHandler_def
        detachWindowUnloadHook_def simpleDb_runTransaction_def zombiedClientLocalStorageKey_def
        ZOMBIED_CLIENTS_KEY_PREFIX_def
        newTabA_def browserWithoutIndexedDb_def browser_def world0_def)

end
